theory Spec2Isabelle
  imports Complex_Main "HOL-Library.Word" "HOL-Library.Sublist"
begin

section \<open>JavaScript strings\<close>

text \<open>
  A JavaScript string is a sequence of 16-bit code units: \<open>length\<close>, \<open>slice\<close>,
  \<open>indexOf\<close> and the comparison of two strings all count code units. The ASCII text of
  the source's literals is embedded by \<open>lit\<close>; the few non-ASCII characters of the
  source (the ellipsis, the typographic quotes) are written as their code units.
\<close>

type_synonym jschar = "16 word"
type_synonym jsstring = "jschar list"

definition lit :: "string \<Rightarrow> jsstring" where
  "lit s = map (\<lambda>c. word_of_nat (of_char c)) s"

text \<open>The character U+2026 that the error paths append to a shortened detail.\<close>

definition ellipsis :: jsstring where
  "ellipsis = [0x2026]"

text \<open>
  \<open>String.prototype.trim\<close> removes the WhiteSpace and LineTerminator code points of
  ECMA-262 from both ends.
\<close>

definition isWhiteSpace :: "jschar \<Rightarrow> bool" where
  "isWhiteSpace c = (c \<in> set [0x9, 0xA, 0xB, 0xC, 0xD, 0x20, 0xA0, 0x1680,
     0x2000, 0x2001, 0x2002, 0x2003, 0x2004, 0x2005, 0x2006, 0x2007, 0x2008, 0x2009, 0x200A,
     0x2028, 0x2029, 0x202F, 0x205F, 0x3000, 0xFEFF])"

definition trim :: "jsstring \<Rightarrow> jsstring" where
  "trim s = rev (dropWhile isWhiteSpace (rev (dropWhile isWhiteSpace s)))"

text \<open>
  \<open>a < b\<close> on two strings (IsLessThan, both operands strings): a proper prefix is
  smaller, otherwise the first differing code unit decides, compared as an unsigned
  number.
\<close>

fun stringLess :: "jsstring \<Rightarrow> jsstring \<Rightarrow> bool" where
  "stringLess [] [] = False"
| "stringLess [] (y # ys) = True"
| "stringLess (x # xs) [] = False"
| "stringLess (x # xs) (y # ys) = (if x = y then stringLess xs ys else x < y)"

section \<open>JavaScript numbers\<close>

text \<open>
  The numbers the program meets come out of \<open>JSON.parse\<close> or out of a conversion to
  number. They are the doubles: finite rationals and the two infinities (a JSON literal
  such as \<open>1e999\<close> parses to \<open>Infinity\<close>). NaN is kept apart, as the value \<open>None\<close> of
  \<open>jsnum option\<close>; \<open>-0\<close> and \<open>+0\<close> compare equal and are both falsy, and are one value
  here. The order is the one \<open>Number::lessThan\<close> computes.
\<close>

datatype jsnum = NegInfinity | Finite rat | PosInfinity

instantiation jsnum :: linorder
begin

fun less_jsnum :: "jsnum \<Rightarrow> jsnum \<Rightarrow> bool" where
  "less_jsnum NegInfinity NegInfinity = False"
| "less_jsnum NegInfinity (Finite b) = True"
| "less_jsnum NegInfinity PosInfinity = True"
| "less_jsnum (Finite a) NegInfinity = False"
| "less_jsnum (Finite a) (Finite b) = (a < b)"
| "less_jsnum (Finite a) PosInfinity = True"
| "less_jsnum PosInfinity b = False"

definition less_eq_jsnum :: "jsnum \<Rightarrow> jsnum \<Rightarrow> bool" where
  "less_eq_jsnum a b = (a < b \<or> a = b)"

instance
proof
  fix x y z :: jsnum
  show "(x < y) = (x \<le> y \<and> \<not> y \<le> x)"
    by (cases x; cases y) (auto simp: less_eq_jsnum_def)
  show "x \<le> x"
    by (simp add: less_eq_jsnum_def)
  show "x \<le> y \<Longrightarrow> y \<le> z \<Longrightarrow> x \<le> z"
    by (cases x; cases y; cases z) (auto simp: less_eq_jsnum_def)
  show "x \<le> y \<Longrightarrow> y \<le> x \<Longrightarrow> x = y"
    by (cases x; cases y) (auto simp: less_eq_jsnum_def)
  show "x \<le> y \<or> y \<le> x"
    by (cases x; cases y) (auto simp: less_eq_jsnum_def)
qed

end

section \<open>JSON values and the conversions of the language\<close>

text \<open>
  What \<open>response.json()\<close> resolves to. An object is the list of its own properties;
  a key is looked up from the front, so a list with a repeated key stands for the object
  holding the first binding.
\<close>

datatype json =
    JNull
  | JBool bool
  | JNum jsnum
  | JStr jsstring
  | JArr "json list"
  | JObj "(jsstring \<times> json) list"

text \<open>ToBoolean. A parsed number is never NaN, so zero is the only falsy number.\<close>

fun truthy :: "json \<Rightarrow> bool" where
  "truthy JNull = False"
| "truthy (JBool b) = b"
| "truthy (JNum n) = (n \<noteq> Finite 0)"
| "truthy (JStr s) = (s \<noteq> [])"
| "truthy (JArr xs) = True"
| "truthy (JObj kvs) = True"

text \<open>
  \<open>v.score\<close> and \<open>v.mask\<close>, with \<open>None\<close> for \<open>undefined\<close>. The source reads a
  property only of a value it has found truthy, so the receiver is never \<open>null\<close>. Neither
  name is a property of \<open>Object.prototype\<close>, \<open>Array.prototype\<close> or of the wrappers of
  strings, numbers and booleans, so only an object's own property can answer.
\<close>

fun getMember :: "json \<Rightarrow> jsstring \<Rightarrow> json option" where
  "getMember (JObj kvs) k = map_of kvs k"
| "getMember v k = None"

text \<open>
  The operations of the engine that are taken as given rather than modelled:
  \<open>Number::toString\<close>, \<open>StringToNumber\<close> (\<open>None\<close> is NaN) and the source text that
  \<open>Function.prototype.toString\<close> gives for the built-in function of a given name and
  the message text of a TypeError the engine raises, both of which ECMA-262 leaves to the
  implementation. Every theorem below holds for each choice.
\<close>

record runtime =
  numberToString :: "jsnum \<Rightarrow> jsstring"
  stringToNumber :: "jsstring \<Rightarrow> jsnum option"
  nativeSource :: "jsstring \<Rightarrow> jsstring"
  typeErrorMessage :: jsstring

datatype exn = Error jsstring | TypeError

text \<open>\<open>Array.prototype.join\<close> over the converted elements; the first failure wins.\<close>

fun joinWith :: "jsstring \<Rightarrow> (exn + jsstring) list \<Rightarrow> exn + jsstring" where
  "joinWith sep [] = Inr []"
| "joinWith sep [r] = r"
| "joinWith sep (r # rs) =
     (case r of
        Inl e \<Rightarrow> Inl e
      | Inr s \<Rightarrow> (case joinWith sep rs of Inl e \<Rightarrow> Inl e | Inr t \<Rightarrow> Inr (s @ sep @ t)))"

text \<open>
  ToString. An array is joined with commas, a \<open>null\<close> element giving the empty string.
  An object goes through OrdinaryToPrimitive: \<open>Object.prototype.toString\<close> answers
  \<open>[object Object]\<close>, unless the object has an own property \<open>toString\<close>, which, coming
  from JSON, is not callable; \<open>valueOf\<close> then returns no primitive either and the
  conversion throws a TypeError.
\<close>

fun toString :: "runtime \<Rightarrow> json \<Rightarrow> exn + jsstring" where
  "toString rt JNull = Inr (lit ''null'')"
| "toString rt (JBool b) = Inr (if b then lit ''true'' else lit ''false'')"
| "toString rt (JNum n) = Inr (numberToString rt n)"
| "toString rt (JStr s) = Inr s"
| "toString rt (JArr xs) =
     joinWith (lit '','') (map (\<lambda>x. if x = JNull then Inr [] else toString rt x) xs)"
| "toString rt (JObj kvs) =
     (if map_of kvs (lit ''toString'') = None then Inr (lit ''[object Object]'')
      else Inl TypeError)"

datatype prim = PUndefined | PNull | PBool bool | PNum jsnum | PStr jsstring

text \<open>ToPrimitive with hint number, on a value that may be \<open>undefined\<close>.\<close>

fun toPrimitive :: "runtime \<Rightarrow> json option \<Rightarrow> exn + prim" where
  "toPrimitive rt None = Inr PUndefined"
| "toPrimitive rt (Some JNull) = Inr PNull"
| "toPrimitive rt (Some (JBool b)) = Inr (PBool b)"
| "toPrimitive rt (Some (JNum n)) = Inr (PNum n)"
| "toPrimitive rt (Some (JStr s)) = Inr (PStr s)"
| "toPrimitive rt (Some v) = (case toString rt v of Inl e \<Rightarrow> Inl e | Inr s \<Rightarrow> Inr (PStr s))"

text \<open>ToNumber on a primitive; \<open>None\<close> is NaN.\<close>

fun toNumber :: "runtime \<Rightarrow> prim \<Rightarrow> jsnum option" where
  "toNumber rt PUndefined = None"
| "toNumber rt PNull = Some (Finite 0)"
| "toNumber rt (PBool b) = Some (Finite (if b then 1 else 0))"
| "toNumber rt (PNum n) = Some n"
| "toNumber rt (PStr s) = stringToNumber rt s"

text \<open>
  IsLessThan of ECMA-262: \<open>Some b\<close> when the operands are ordered, \<open>None\<close> (its
  \<open>undefined\<close>) when they are not comparable, which is when a NaN is involved.
\<close>

fun primLess :: "runtime \<Rightarrow> prim \<Rightarrow> prim \<Rightarrow> bool option" where
  "primLess rt (PStr a) (PStr b) = Some (stringLess a b)"
| "primLess rt px py =
     (case toNumber rt px of
        None \<Rightarrow> None
      | Some nx \<Rightarrow> (case toNumber rt py of None \<Rightarrow> None | Some ny \<Rightarrow> Some (nx < ny)))"

definition isLessThan :: "runtime \<Rightarrow> json option \<Rightarrow> json option \<Rightarrow> exn + bool option" where
  "isLessThan rt x y =
     (case toPrimitive rt x of
        Inl e \<Rightarrow> Inl e
      | Inr px \<Rightarrow> (case toPrimitive rt y of Inl e \<Rightarrow> Inl e | Inr py \<Rightarrow> Inr (primLess rt px py)))"

text \<open>\<open>a > b\<close> is IsLessThan of \<open>b\<close> and \<open>a\<close>, with \<open>undefined\<close> read as false.\<close>

definition greaterThan :: "runtime \<Rightarrow> json option \<Rightarrow> json option \<Rightarrow> exn + bool" where
  "greaterThan rt a b =
     (case isLessThan rt b a of Inl e \<Rightarrow> Inl e | Inr r \<Rightarrow> Inr (r = Some True))"

section \<open>Mask selection and the decode path of callBackgroundRemoval\<close>

text \<open>
  \<open>Array.prototype.reduce\<close> without an initial value: the first element starts as the
  accumulator and the callback runs on the others from left to right; on an empty array
  it throws a TypeError. A callback that throws ends the loop.
\<close>

fun reduceFrom :: "('a \<Rightarrow> 'a \<Rightarrow> exn + 'a) \<Rightarrow> 'a \<Rightarrow> 'a list \<Rightarrow> exn + 'a" where
  "reduceFrom f acc [] = Inr acc"
| "reduceFrom f acc (x # xs) =
     (case f acc x of Inl e \<Rightarrow> Inl e | Inr acc' \<Rightarrow> reduceFrom f acc' xs)"

definition reduce :: "('a \<Rightarrow> 'a \<Rightarrow> exn + 'a) \<Rightarrow> 'a list \<Rightarrow> exn + 'a" where
  "reduce f xs = (case xs of [] \<Rightarrow> Inl TypeError | x # rest \<Rightarrow> reduceFrom f x rest)"

text \<open>
  The callback \<open>(acc, item) => !acc || (item && item.score > acc.score) ? item : acc\<close>.
  The conditional binds weakest, and the two short circuits keep every property read on a
  truthy value.
\<close>

definition pick :: "runtime \<Rightarrow> json \<Rightarrow> json \<Rightarrow> exn + json" where
  "pick rt acc item =
     (if \<not> truthy acc then Inr item
      else if \<not> truthy item then Inr acc
      else (case greaterThan rt (getMember item (lit ''score'')) (getMember acc (lit ''score'')) of
              Inl e \<Rightarrow> Inl e
            | Inr b \<Rightarrow> Inr (if b then item else acc)))"

definition selectBest :: "runtime \<Rightarrow> json list \<Rightarrow> exn + json" where
  "selectBest rt xs = reduce (pick rt) xs"

definition emptyResult :: exn where
  "emptyResult = Error (lit ''Background removal returned an empty result.'')"

definition missingField :: exn where
  "missingField = Error (lit ''Background removal response did not include a mask.'')"

text \<open>
  Lines 247 to 260 of callBackgroundRemoval, on the value \<open>response.json()\<close> resolved
  to: the array check, the selection, the mask check and the data URL, whose template
  literal converts the mask with ToString.
\<close>

definition decodeMask :: "runtime \<Rightarrow> json \<Rightarrow> exn + jsstring" where
  "decodeMask rt parsed =
     (case parsed of
        JArr xs \<Rightarrow>
          (if xs = [] then Inl emptyResult
           else (case selectBest rt xs of
                   Inl e \<Rightarrow> Inl e
                 | Inr best \<Rightarrow>
                     (if \<not> truthy best then Inl missingField
                      else (case getMember best (lit ''mask'') of
                              None \<Rightarrow> Inl missingField
                            | Some m \<Rightarrow>
                                (if \<not> truthy m then Inl missingField
                                 else (case toString rt m of
                                         Inl e \<Rightarrow> Inl e
                                       | Inr s \<Rightarrow> Inr (lit ''data:image/png;base64,'' @ s)))))))
      | _ \<Rightarrow> Inl emptyResult)"


section \<open>buildPrompt\<close>

text \<open>
  \<open>buildPrompt\<close> of src/app.js (lines 18 to 42) and of the three-model variant
  (src/unnamed/part_000, lines 33 to 57): the two texts are the same.
\<close>

definition buildPrompt :: "jsstring \<Rightarrow> jsstring \<Rightarrow> jsstring" where
  "buildPrompt food editType =
     (let base = food @ lit '' hero shot, ultra realistic, commercial food photography, ''
                   @ lit ''shot on a dark matte table, shallow depth of field, cinematic lighting''
      in if editType = lit ''Background cleaning'' then
           base @ lit '', isolated on a clean soft gradient background, no clutter, product catalog look, web shop ready''
         else if editType = lit ''Quality improvement'' then
           base @ lit '', crisp 4k detail, noise-free, high dynamic range, sharp textures, studio-grade retouching''
         else
           base @ lit '', modern editorial style, subtle color grading, perfect for a sales landing page hero banner'')"

text \<open>
  The third variant (src/unnamed/part_000, lines 413 to 428) looks the mode up in an
  object literal, \<open>editMap[editType] || "professional ..."\<close>. A property read on an
  object literal also finds what the literal inherits from \<open>Object.prototype\<close>: the
  built-in functions listed below and the accessor \<open>__proto__\<close>, which answers
  \<open>Object.prototype\<close> itself.
\<close>

datatype looked = OwnString jsstring | NativeFunction jsstring | PrototypeObject | Undefined

definition objectPrototypeFunctions :: "string list" where
  "objectPrototypeFunctions =
     [''constructor'', ''hasOwnProperty'', ''isPrototypeOf'', ''propertyIsEnumerable'',
      ''toLocaleString'', ''toString'', ''valueOf'', ''__defineGetter__'', ''__defineSetter__'',
      ''__lookupGetter__'', ''__lookupSetter__'']"

text \<open>
  The name of the function found under a key: \<open>constructor\<close> holds the function
  \<open>Object\<close>, each of the others a function named as its key.
\<close>

definition initialName :: "jsstring \<Rightarrow> jsstring" where
  "initialName k = (if k = lit ''constructor'' then lit ''Object'' else k)"

definition editMap :: "jsstring \<Rightarrow> looked" where
  "editMap k =
     (if k = lit ''Style'' then
        OwnString (lit ''hero shot in a clean, modern style, studio lighting, high contrast, appetizing presentation'')
      else if k = lit ''Background cleaning'' then
        OwnString (lit ''isolated on a clean, soft gradient background, no clutter, studio tabletop photography'')
      else if k = lit ''Quality improvement'' then
        OwnString (lit ''ultra detailed, crisp focus, high-resolution, professional food photography lighting'')
      else if k = lit ''__proto__'' then PrototypeObject
      else if k \<in> set (map lit objectPrototypeFunctions) then NativeFunction (initialName k)
      else Undefined)"

text \<open>
  \<open>x || d\<close> keeps a truthy \<open>x\<close>: a non-empty string, a function, an object. The
  template literal then converts it with ToString.
\<close>

definition editDescription :: "runtime \<Rightarrow> jsstring \<Rightarrow> jsstring" where
  "editDescription rt editType =
     (case editMap editType of
        OwnString s \<Rightarrow>
          (if s = [] then lit ''professional food photography, sharp focus, soft studio lighting''
           else s)
      | NativeFunction name \<Rightarrow> nativeSource rt name
      | PrototypeObject \<Rightarrow> lit ''[object Object]''
      | Undefined \<Rightarrow> lit ''professional food photography, sharp focus, soft studio lighting'')"

definition buildPrompt_altPrompt :: "runtime \<Rightarrow> jsstring \<Rightarrow> jsstring \<Rightarrow> jsstring" where
  "buildPrompt_altPrompt rt food editType =
     food @ lit '' photo, '' @ editDescription rt editType
       @ lit '', perfect for an online sales site hero banner, shot on DSLR, 4k, realistic textures''"

section \<open>fileToBase64\<close>

type_synonym bytes = "8 word list"

record jsfile =
  fileName :: jsstring
  fileType :: jsstring
  fileBytes :: bytes

text \<open>
  How a FileReader ends: \<open>onerror\<close> with \<open>reader.error\<close> (which may be \<open>null\<close>), or
  \<open>onload\<close> with \<open>reader.result\<close>, a string or (\<open>None\<close>) something else.
\<close>

datatype readOutcome = ReadFailed "exn option" | Loaded "jsstring option"

text \<open>\<open>s.indexOf(",")\<close>, with \<open>None\<close> for \<open>-1\<close>.\<close>

fun indexOf :: "jschar \<Rightarrow> jsstring \<Rightarrow> nat option" where
  "indexOf c [] = None"
| "indexOf c (x # xs) = (if x = c then Some 0 else map_option Suc (indexOf c xs))"

definition comma :: jschar where
  "comma = 0x2C"

definition fileToBase64 :: "readOutcome \<Rightarrow> exn + jsstring" where
  "fileToBase64 outcome =
     (case outcome of
        ReadFailed err \<Rightarrow>
          (case err of Some e \<Rightarrow> Inl e | None \<Rightarrow> Inl (Error (lit ''Failed to read image file.'')))
      | Loaded res \<Rightarrow>
          (case res of
             None \<Rightarrow> Inl (Error (lit ''Unexpected FileReader result type.''))
           | Some s \<Rightarrow>
               (case indexOf comma s of
                  None \<Rightarrow> Inr s
                | Some commaIndex \<Rightarrow> Inr (drop (commaIndex + 1) s))))"

text \<open>
  What \<open>readAsDataURL\<close> hands to \<open>onload\<close> by the File API: the media type and the
  base64 text of the bytes, in the data URL syntax of RFC 2397.
\<close>

definition dataUrl :: "jsstring \<Rightarrow> jsstring \<Rightarrow> jsstring" where
  "dataUrl mediaType payload = lit ''data:'' @ mediaType @ lit '';base64,'' @ payload"

text \<open>
  The browser's side of that URL, which is not code of the repository: the base64 coding
  of RFC 4648, three bytes to four characters with \<open>=\<close> as padding, and its
  decoding.
\<close>

definition base64Alphabet :: jsstring where
  "base64Alphabet = lit ''ABCDEFGHIJKLMNOPQRSTUVWXYZabcdefghijklmnopqrstuvwxyz0123456789+/''"

definition padding :: jschar where
  "padding = 0x3D"

definition sextetChar :: "nat \<Rightarrow> jschar" where
  "sextetChar i = base64Alphabet ! i"

definition sextetOf :: "jschar \<Rightarrow> nat" where
  "sextetOf c = length (takeWhile (\<lambda>x. x \<noteq> c) base64Alphabet)"

fun base64 :: "bytes \<Rightarrow> jsstring" where
  "base64 [] = []"
| "base64 [a] =
     [sextetChar (unat a div 4), sextetChar (unat a mod 4 * 16), padding, padding]"
| "base64 [a, b] =
     [sextetChar (unat a div 4), sextetChar (unat a mod 4 * 16 + unat b div 16),
      sextetChar (unat b mod 16 * 4), padding]"
| "base64 (a # b # c # rest) =
     [sextetChar (unat a div 4), sextetChar (unat a mod 4 * 16 + unat b div 16),
      sextetChar (unat b mod 16 * 4 + unat c div 64), sextetChar (unat c mod 64)]
     @ base64 rest"

fun unbase64 :: "jsstring \<Rightarrow> bytes" where
  "unbase64 (p # q # r # s # rest) =
     (if r = padding then [word_of_nat (sextetOf p * 4 + sextetOf q div 16)]
      else if s = padding then
        [word_of_nat (sextetOf p * 4 + sextetOf q div 16),
         word_of_nat (sextetOf q mod 16 * 16 + sextetOf r div 4)]
      else
        [word_of_nat (sextetOf p * 4 + sextetOf q div 16),
         word_of_nat (sextetOf q mod 16 * 16 + sextetOf r div 4),
         word_of_nat (sextetOf r mod 4 * 64 + sextetOf s)] @ unbase64 rest)"
| "unbase64 cs = []"

definition browserRead :: "jsfile \<Rightarrow> readOutcome" where
  "browserRead f = Loaded (Some (dataUrl (fileType f) (base64 (fileBytes f))))"

section \<open>Requests, responses and the environment\<close>

datatype body = JsonInputs jsstring | RawFile jsfile

record request =
  url :: jsstring
  httpMethod :: jsstring
  headers :: "(jsstring \<times> jsstring) list"
  payload :: body

text \<open>
  \<open>JsonInputs s\<close> is the text \<open>JSON.stringify({ inputs: s })\<close>, \<open>RawFile f\<close> the file
  passed as the body. A response is what the program can ask of it: the flag, the status
  line, and how each of the three readers of the body would settle.
\<close>

record response =
  ok :: bool
  status :: nat
  statusText :: jsstring
  textBody :: "exn + jsstring"
  jsonBody :: "exn + json"
  blobBody :: "exn + bytes"

record env =
  engine :: runtime
  fetch :: "request \<Rightarrow> exn + response"
  readAsDataURL :: "jsfile \<Rightarrow> readOutcome"

definition HF_ENDPOINTS_style :: jsstring where
  "HF_ENDPOINTS_style =
     lit ''https://router.huggingface.co/hf-inference/models/stabilityai/stable-diffusion-xl-base-1.0''"

definition HF_ENDPOINTS_background :: jsstring where
  "HF_ENDPOINTS_background =
     lit ''https://router.huggingface.co/hf-inference/models/briaai/RMBG-2.0''"

definition HF_ENDPOINTS_quality :: jsstring where
  "HF_ENDPOINTS_quality =
     lit ''https://router.huggingface.co/hf-inference/models/ai-forever/Real-ESRGAN''"

text \<open>The single endpoint of src/app.js and of the third variant.\<close>

definition HF_ENDPOINT :: jsstring where
  "HF_ENDPOINT =
     lit ''https://router.huggingface.co/hf-inference/models/stabilityai/stable-diffusion-xl-base-1.0''"

section \<open>The error path of a response that is not ok\<close>

text \<open>\<open>try { detail = await response.text() } catch { }\<close>, starting from \<open>""\<close>.\<close>

definition readDetail :: "response \<Rightarrow> jsstring" where
  "readDetail resp = (case textBody resp of Inl e \<Rightarrow> [] | Inr t \<Rightarrow> t)"

text \<open>
  \<open>detail && detail.length > bound ? `${detail.slice(0, bound)}...` : detail\<close>, the last
  character of the template being U+2026.
\<close>

definition shortDetail :: "nat \<Rightarrow> jsstring \<Rightarrow> jsstring" where
  "shortDetail bound detail =
     (if detail \<noteq> [] \<and> bound < length detail then take bound detail @ ellipsis else detail)"

text \<open>\<open>shortDetail ? `${baseMessage} Details: ${shortDetail}` : baseMessage\<close>.\<close>

definition fullMessage :: "jsstring \<Rightarrow> jsstring \<Rightarrow> jsstring" where
  "fullMessage baseMessage short =
     (if short \<noteq> [] then baseMessage @ lit '' Details: '' @ short else baseMessage)"

definition failure :: "jsstring \<Rightarrow> response \<Rightarrow> exn" where
  "failure baseMessage resp = Error (fullMessage baseMessage (shortDetail 160 (readDetail resp)))"

definition styleBaseMessage :: jsstring where
  "styleBaseMessage =
     lit ''Style generation failed (SDXL). The model may be loading or your key may not have access.''"

definition backgroundBaseMessage :: jsstring where
  "backgroundBaseMessage =
     lit ''Background removal failed (RMBG-2.0). Check access to the model and try again.''"

definition qualityBaseMessage :: jsstring where
  "qualityBaseMessage =
     lit ''Quality improvement failed (Real-ESRGAN). The model may not be available on the free Inference API.''"

definition generationBaseMessage :: jsstring where
  "generationBaseMessage =
     lit ''Generation failed. The model may be loading or your key may not have access.''"

text \<open>The decimal text of \<open>response.status\<close>, as a template literal writes an integer.\<close>

function decimal :: "nat \<Rightarrow> jsstring" where
  "decimal n =
     (if n < 10 then [word_of_nat (48 + n)]
      else decimal (n div 10) @ [word_of_nat (48 + n mod 10)])"
  by pat_completeness auto
termination
  by (relation "measure (\<lambda>n. n)") auto

declare decimal.simps [simp del]

text \<open>\<open>parts.join(sep)\<close> on strings.\<close>

fun joinStrings :: "jsstring \<Rightarrow> jsstring list \<Rightarrow> jsstring" where
  "joinStrings sep [] = []"
| "joinStrings sep [p] = p"
| "joinStrings sep (p # ps) = p @ sep @ joinStrings sep ps"

text \<open>
  The message of src/app.js (lines 105 to 122): the status line, then the detail cut at
  300, the falsy parts filtered out and the rest joined by a space. The second part is
  \<open>shortDetail && `Details: ${shortDetail}`\<close>, which is the empty string when the detail
  is.
\<close>

definition statusLine :: "response \<Rightarrow> jsstring" where
  "statusLine resp =
     lit ''HF Inference error: '' @ decimal (status resp) @ lit '' '' @ statusText resp @ lit ''.''"

definition failure_app :: "response \<Rightarrow> exn" where
  "failure_app resp =
     (let short = shortDetail 300 (readDetail resp);
          msgParts = filter (\<lambda>p. p \<noteq> [])
            [statusLine resp, (if short = [] then short else lit ''Details: '' @ short)]
      in Error (joinStrings (lit '' '') msgParts))"


section \<open>The calls of the three-model variant\<close>

text \<open>
  The argument of each \<open>fetch\<close>. Each call returns the requests it issued, in order,
  and how its promise settles. The file argument is \<open>None\<close> when the caller passes
  \<open>undefined\<close>: the read of the file then throws a TypeError before any request.
\<close>

definition styleRequest :: "jsstring \<Rightarrow> jsstring \<Rightarrow> request" where
  "styleRequest apiKey prompt =
     \<lparr>url = HF_ENDPOINTS_style, httpMethod = lit ''POST'',
      headers = [(lit ''Authorization'', lit ''Bearer '' @ apiKey),
                 (lit ''Content-Type'', lit ''application/json''),
                 (lit ''Accept'', lit ''image/png'')],
      payload = JsonInputs prompt\<rparr>"

definition backgroundRequest :: "jsstring \<Rightarrow> jsstring \<Rightarrow> request" where
  "backgroundRequest apiKey base64Image =
     \<lparr>url = HF_ENDPOINTS_background, httpMethod = lit ''POST'',
      headers = [(lit ''Authorization'', lit ''Bearer '' @ apiKey),
                 (lit ''Content-Type'', lit ''application/json''),
                 (lit ''Accept'', lit ''application/json'')],
      payload = JsonInputs base64Image\<rparr>"

definition qualityRequest :: "jsstring \<Rightarrow> jsfile \<Rightarrow> request" where
  "qualityRequest apiKey imageFile =
     \<lparr>url = HF_ENDPOINTS_quality, httpMethod = lit ''POST'',
      headers = [(lit ''Authorization'', lit ''Bearer '' @ apiKey),
                 (lit ''Content-Type'',
                  if fileType imageFile \<noteq> [] then fileType imageFile
                  else lit ''application/octet-stream''),
                 (lit ''Accept'', lit ''image/png'')],
      payload = RawFile imageFile\<rparr>"

definition callStyleGeneration ::
    "env \<Rightarrow> jsstring \<Rightarrow> jsstring \<Rightarrow> request list \<times> (exn + bytes)" where
  "callStyleGeneration ev apiKey prompt =
     (let req = styleRequest apiKey prompt
      in ([req],
          case fetch ev req of
            Inl e \<Rightarrow> Inl e
          | Inr resp \<Rightarrow>
              if \<not> ok resp then Inl (failure styleBaseMessage resp) else blobBody resp))"

definition callBackgroundRemoval ::
    "env \<Rightarrow> jsstring \<Rightarrow> jsfile option \<Rightarrow> request list \<times> (exn + jsstring)" where
  "callBackgroundRemoval ev apiKey imageFile =
     (case imageFile of
        None \<Rightarrow> ([], Inl TypeError)
      | Some f \<Rightarrow>
          (case fileToBase64 (readAsDataURL ev f) of
             Inl e \<Rightarrow> ([], Inl e)
           | Inr base64Image \<Rightarrow>
               (let req = backgroundRequest apiKey base64Image
                in ([req],
                    case fetch ev req of
                      Inl e \<Rightarrow> Inl e
                    | Inr resp \<Rightarrow>
                        if \<not> ok resp then Inl (failure backgroundBaseMessage resp)
                        else (case jsonBody resp of
                                Inl e \<Rightarrow> Inl e
                              | Inr parsed \<Rightarrow> decodeMask (engine ev) parsed)))))"

definition callQualityImprovement ::
    "env \<Rightarrow> jsstring \<Rightarrow> jsfile option \<Rightarrow> request list \<times> (exn + bytes)" where
  "callQualityImprovement ev apiKey imageFile =
     (case imageFile of
        None \<Rightarrow> ([], Inl TypeError)
      | Some f \<Rightarrow>
          (let req = qualityRequest apiKey f
           in ([req],
               case fetch ev req of
                 Inl e \<Rightarrow> Inl e
               | Inr resp \<Rightarrow>
                   if \<not> ok resp then Inl (failure qualityBaseMessage resp) else blobBody resp)))"

section \<open>The click handlers\<close>

text \<open>
  What the handler reads from the page, and what it leaves behind: the requests issued
  and the final content of the output area. The elements of the page are taken to exist;
  the loading indicator and the state of the button, restored in \<open>finally\<close>, are left out.
\<close>

record inputs =
  apiKeyValue :: jsstring
  foodValue :: jsstring
  editValue :: jsstring
  photoFile :: "jsfile option"

datatype display =
    ErrorText jsstring
  | ImageFromBlob bytes jsstring
  | ImageFromDataUrl jsstring jsstring

record outcome =
  requests :: "request list"
  outputArea :: display

definition missingKeyMessage :: jsstring where
  "missingKeyMessage = lit ''Please paste your Hugging Face API key before generating.''"

text \<open>The quotation marks around the mode are U+201C and U+201D.\<close>

definition missingPhotoMessage :: "jsstring \<Rightarrow> jsstring" where
  "missingPhotoMessage editType =
     lit ''Please upload a food photo for '' @ [0x201C] @ editType @ [0x201D]
       @ lit ''. Style mode can work without a file.''"

definition processingFailedMessage :: jsstring where
  "processingFailedMessage =
     lit ''Something went wrong while processing the image. Please check your API key, model access and try again.''"

text \<open>
  \<open>handleGenerateClick\<close> of the three-model variant (src/unnamed/part_000, lines 310 to
  378). The \<open>catch\<close> replaces whatever was thrown by one fixed text.
\<close>

definition handleGenerateClick :: "env \<Rightarrow> inputs \<Rightarrow> outcome" where
  "handleGenerateClick ev inp =
     (let apiKey = trim (apiKeyValue inp);
          food = foodValue inp;
          editType = editValue inp;
          photo = photoFile inp
      in if apiKey = [] then \<lparr>requests = [], outputArea = ErrorText missingKeyMessage\<rparr>
         else if (editType = lit ''Background cleaning'' \<or> editType = lit ''Quality improvement'')
                 \<and> photo = None then
           \<lparr>requests = [], outputArea = ErrorText (missingPhotoMessage editType)\<rparr>
         else
           (let prompt = buildPrompt food editType
            in if editType = lit ''Style'' then
                 (case callStyleGeneration ev apiKey prompt of
                    (reqs, r) \<Rightarrow>
                      \<lparr>requests = reqs,
                       outputArea =
                         (case r of
                            Inl e \<Rightarrow> ErrorText processingFailedMessage
                          | Inr imageBlob \<Rightarrow>
                              ImageFromBlob imageBlob
                                (lit ''Styled food image for '' @ food
                                   @ lit '' using SDXL based on prompt: '' @ prompt))\<rparr>)
               else if editType = lit ''Background cleaning'' then
                 (case callBackgroundRemoval ev apiKey photo of
                    (reqs, r) \<Rightarrow>
                      \<lparr>requests = reqs,
                       outputArea =
                         (case r of
                            Inl e \<Rightarrow> ErrorText processingFailedMessage
                          | Inr maskDataUrl \<Rightarrow>
                              ImageFromDataUrl maskDataUrl
                                (lit ''Background mask for '' @ food
                                   @ lit '' created with RMBG-2.0''))\<rparr>)
               else if editType = lit ''Quality improvement'' then
                 (case callQualityImprovement ev apiKey photo of
                    (reqs, r) \<Rightarrow>
                      \<lparr>requests = reqs,
                       outputArea =
                         (case r of
                            Inl e \<Rightarrow> ErrorText processingFailedMessage
                          | Inr upscaledBlob \<Rightarrow>
                              ImageFromBlob upscaledBlob
                                (lit ''Quality-improved '' @ food
                                   @ lit '' photo upscaled by Real-ESRGAN''))\<rparr>)
               else
                 (case callStyleGeneration ev apiKey prompt of
                    (reqs, r) \<Rightarrow>
                      \<lparr>requests = reqs,
                       outputArea =
                         (case r of
                            Inl e \<Rightarrow> ErrorText processingFailedMessage
                          | Inr fallbackBlob \<Rightarrow>
                              ImageFromBlob fallbackBlob
                                (lit ''Generated food image for '' @ food
                                   @ lit '' (fallback style mode)''))\<rparr>)))"

text \<open>The request of \<open>generateImage\<close>, the same in src/app.js and in the third variant.\<close>

definition generateRequest :: "jsstring \<Rightarrow> jsstring \<Rightarrow> request" where
  "generateRequest apiKey prompt =
     \<lparr>url = HF_ENDPOINT, httpMethod = lit ''POST'',
      headers = [(lit ''Authorization'', lit ''Bearer '' @ apiKey),
                 (lit ''Content-Type'', lit ''application/json''),
                 (lit ''Accept'', lit ''image/png'')],
      payload = JsonInputs prompt\<rparr>"

text \<open>
  src/app.js: one endpoint, no check of the photo, and the \<open>catch\<close> shows
  \<open>err.message\<close> when it is not empty.
\<close>

definition generateImage_app ::
    "env \<Rightarrow> jsstring \<Rightarrow> jsstring \<Rightarrow> request list \<times> (exn + bytes)" where
  "generateImage_app ev apiKey prompt =
     (let req = generateRequest apiKey prompt
      in ([req],
          case fetch ev req of
            Inl e \<Rightarrow> Inl e
          | Inr resp \<Rightarrow> if \<not> ok resp then Inl (failure_app resp) else blobBody resp))"

definition messageOf :: "runtime \<Rightarrow> exn \<Rightarrow> jsstring" where
  "messageOf rt err = (case err of Error m \<Rightarrow> m | TypeError \<Rightarrow> typeErrorMessage rt)"

definition handleGenerateClick_app :: "env \<Rightarrow> inputs \<Rightarrow> outcome" where
  "handleGenerateClick_app ev inp =
     (let apiKey = trim (apiKeyValue inp);
          food = foodValue inp;
          editType = editValue inp
      in if apiKey = [] then \<lparr>requests = [], outputArea = ErrorText missingKeyMessage\<rparr>
         else
           (let prompt = buildPrompt food editType
            in case generateImage_app ev apiKey prompt of
                 (reqs, r) \<Rightarrow>
                   \<lparr>requests = reqs,
                    outputArea =
                      (case r of
                         Inl err \<Rightarrow>
                           ErrorText
                             (if messageOf (engine ev) err \<noteq> [] then messageOf (engine ev) err
                              else lit ''Something went wrong while generating the image.'')
                       | Inr imageBlob \<Rightarrow>
                           ImageFromBlob imageBlob
                             (lit ''Generated '' @ food @ lit '' image ('' @ editType
                                @ lit '') with SDXL. Prompt: '' @ prompt))\<rparr>))"

text \<open>The third variant (src/unnamed/part_000, lines 499 to 581).\<close>

definition generateImage_altPrompt ::
    "env \<Rightarrow> jsstring \<Rightarrow> jsstring \<Rightarrow> request list \<times> (exn + bytes)" where
  "generateImage_altPrompt ev apiKey prompt =
     (let req = generateRequest apiKey prompt
      in ([req],
          case fetch ev req of
            Inl e \<Rightarrow> Inl e
          | Inr resp \<Rightarrow>
              if \<not> ok resp then Inl (failure generationBaseMessage resp) else blobBody resp))"

definition handleGenerateClick_altPrompt :: "env \<Rightarrow> inputs \<Rightarrow> outcome" where
  "handleGenerateClick_altPrompt ev inp =
     (let apiKey = trim (apiKeyValue inp);
          food = foodValue inp;
          editType = editValue inp
      in if apiKey = [] then \<lparr>requests = [], outputArea = ErrorText missingKeyMessage\<rparr>
         else
           (let prompt = buildPrompt_altPrompt (engine ev) food editType
            in case generateImage_altPrompt ev apiKey prompt of
                 (reqs, r) \<Rightarrow>
                   \<lparr>requests = reqs,
                    outputArea =
                      (case r of
                         Inl e \<Rightarrow>
                           ErrorText
                             (lit ''Something went wrong while generating the image. Please check your API key, model access, and try again.'')
                       | Inr imageBlob \<Rightarrow>
                           ImageFromBlob imageBlob
                             (lit ''Generated food image based on prompt: '' @ prompt))\<rparr>))"

section \<open>Notions the statements use\<close>

text \<open>The score of an entry that is an object with a number under \<open>score\<close>.\<close>

definition numScore :: "json \<Rightarrow> jsnum option" where
  "numScore x = (case getMember x (lit ''score'') of Some (JNum n) \<Rightarrow> Some n | _ \<Rightarrow> None)"

section \<open>An engine for the examples\<close>

text \<open>
  The closed examples need one engine. Its conversions between numbers and strings are
  those of ECMA-262, on doubles.
\<close>

text \<open>Powers with an integer exponent.\<close>

definition scale :: "nat \<Rightarrow> int \<Rightarrow> rat" where
  "scale b e = (if 0 \<le> e then of_nat b ^ nat e else 1 / of_nat b ^ nat (- e))"

text \<open>The number of digits of a positive integer in base \<open>b\<close>, and its decimal digits.\<close>

function width :: "int \<Rightarrow> int \<Rightarrow> int" where
  "width b n = (if b < 2 \<or> n < b then 1 else 1 + width b (n div b))"
  by pat_completeness auto
termination
  by (relation "measure (\<lambda>(b, n). nat n)") (auto intro: int_div_less_self)

declare width.simps [simp del]

function decimalDigits :: "int \<Rightarrow> jsstring" where
  "decimalDigits n =
     (if n < 10 then [word_of_int (48 + n)]
      else decimalDigits (n div 10) @ [word_of_int (48 + n mod 10)])"
  by pat_completeness auto
termination
  by (relation "measure nat") (auto intro: int_div_less_self)

declare decimalDigits.simps [simp del]

text \<open>
  The exponent \<open>e\<close> with \<open>b ^ e \<le> r < b ^ (e + 1)\<close>, for a positive \<open>r\<close>: the digit
  counts of numerator and denominator give it up to one.
\<close>

definition magnitude :: "nat \<Rightarrow> rat \<Rightarrow> int" where
  "magnitude b r =
     (let (p, q) = quotient_of r;
          d = width (int b) p - width (int b) q
      in if scale b d \<le> r then d else d - 1)"

definition roundHalfEven :: "rat \<Rightarrow> int" where
  "roundHalfEven x =
     (let f = \<lfloor>x\<rfloor>; d = x - of_int f
      in if d < 1 / 2 then f else if 1 / 2 < d then f + 1 else if even f then f else f + 1)"

text \<open>
  The Number value for a real: the nearest double, ties to the even significand, with 53
  bits above the smallest exponent \<open>-1074\<close> and infinity from \<open>2 ^ 1024\<close> on.
\<close>

definition nearestDouble :: "rat \<Rightarrow> jsnum" where
  "nearestDouble r =
     (if r = 0 then Finite 0
      else
        (let a = \<bar>r\<bar>;
             u = max (magnitude 2 a - 52) (- 1074);
             v = of_int (roundHalfEven (a / scale 2 u)) * scale 2 u
         in if scale 2 1024 \<le> v then (if r < 0 then NegInfinity else PosInfinity)
            else Finite (if r < 0 then - v else v)))"

text \<open>
  Number::toString in radix 10. For a positive double \<open>v\<close> the digits are those of the
  integer \<open>s\<close> with the fewest digits \<open>k\<close> such that \<open>s * 10 ^ (n - k)\<close> has the Number
  value \<open>v\<close>, the closest to \<open>v\<close> if there are several; 17 digits always suffice. The
  digits are then laid out with or without an exponent, by the position \<open>n\<close> of the point.
\<close>

definition candidate :: "rat \<Rightarrow> int \<Rightarrow> nat \<Rightarrow> int option" where
  "candidate v n k =
     (let w = scale 10 (n - int k);
          lo = \<lfloor>v / w\<rfloor>;
          hi = lo + 1;
          okLo = (nearestDouble (of_int lo * w) = Finite v);
          okHi = (nearestDouble (of_int hi * w) = Finite v);
          dLo = v - of_int lo * w;
          dHi = of_int hi * w - v
      in if okLo \<and> okHi then
           Some (if dLo < dHi then lo else if dHi < dLo then hi else if even lo then lo else hi)
         else if okLo then Some lo
         else if okHi then Some hi
         else None)"

fun shortest :: "rat \<Rightarrow> int \<Rightarrow> nat list \<Rightarrow> int \<times> nat" where
  "shortest v n [] = (\<lfloor>v / scale 10 (n - 17)\<rfloor>, 17)"
| "shortest v n (k # ks) =
     (case candidate v n k of Some s \<Rightarrow> (s, k) | None \<Rightarrow> shortest v n ks)"

definition stripZeros :: "jsstring \<Rightarrow> jsstring" where
  "stripZeros ds = rev (dropWhile (\<lambda>c. c = 0x30) (rev ds))"

definition layout :: "jsstring \<Rightarrow> int \<Rightarrow> jsstring" where
  "layout ds n =
     (let k = int (length ds)
      in if k \<le> n \<and> n \<le> 21 then ds @ replicate (nat (n - k)) 0x30
         else if 0 < n \<and> n \<le> 21 then take (nat n) ds @ lit ''.'' @ drop (nat n) ds
         else if - 6 < n \<and> n \<le> 0 then lit ''0.'' @ replicate (nat (- n)) 0x30 @ ds
         else
           (let e = n - 1;
                ex = (if e < 0 then lit ''-'' else lit ''+'') @ decimalDigits \<bar>e\<bar>
            in if k = 1 then ds @ lit ''e'' @ ex
               else take 1 ds @ lit ''.'' @ drop 1 ds @ lit ''e'' @ ex))"

definition positiveToString :: "rat \<Rightarrow> jsstring" where
  "positiveToString v =
     (let n = magnitude 10 v + 1;
          (s, k) = shortest v n [1 ..< 18];
          ds = decimalDigits s
      in layout (stripZeros ds) (n + int (length ds) - int k))"

definition Number_toString :: "jsnum \<Rightarrow> jsstring" where
  "Number_toString x =
     (case x of
        NegInfinity \<Rightarrow> lit ''-Infinity''
      | PosInfinity \<Rightarrow> lit ''Infinity''
      | Finite r \<Rightarrow>
          (case nearestDouble r of
             Finite v \<Rightarrow>
               (if v = 0 then lit ''0''
                else if v < 0 then lit ''-'' @ positiveToString (- v)
                else positiveToString v)
           | NegInfinity \<Rightarrow> lit ''-Infinity''
           | PosInfinity \<Rightarrow> lit ''Infinity''))"

text \<open>
  StringToNumber: the text is trimmed of white space; an empty text is zero; a prefix
  \<open>0x\<close>, \<open>0o\<close> or \<open>0b\<close> starts an unsigned integer in that radix; otherwise an optional
  sign is followed by \<open>Infinity\<close> or by a decimal literal with an optional fraction and an
  optional exponent. Any other text is NaN.
\<close>

definition digitValue :: "jschar \<Rightarrow> int" where
  "digitValue c =
     (if 0x30 \<le> c \<and> c \<le> 0x39 then uint c - 48
      else if 0x61 \<le> c \<and> c \<le> 0x66 then uint c - 87
      else if 0x41 \<le> c \<and> c \<le> 0x46 then uint c - 55
      else 16)"

definition isDigit :: "jschar \<Rightarrow> bool" where
  "isDigit c = (digitValue c < 10)"

definition digitsValue :: "int \<Rightarrow> jsstring \<Rightarrow> int option" where
  "digitsValue radix ds =
     (if ds = [] \<or> \<not> list_all (\<lambda>c. digitValue c < radix) ds then None
      else Some (foldl (\<lambda>a c. a * radix + digitValue c) 0 ds))"

definition exponentPart :: "jsstring \<Rightarrow> int option" where
  "exponentPart s =
     (if s = [] then Some 0
      else if take 1 s = lit ''e'' \<or> take 1 s = lit ''E'' then
        (let t = drop 1 s;
             signed = (take 1 t = lit ''-'' \<or> take 1 t = lit ''+'')
         in case digitsValue 10 (if signed then drop 1 t else t) of
              None \<Rightarrow> None
            | Some n \<Rightarrow> Some (if take 1 t = lit ''-'' then - n else n))
      else None)"

text \<open>
  The value of an unsigned decimal literal, rounded. A literal beyond \<open>10 ^ 310\<close> is
  infinite and one below \<open>10 ^ - 330\<close> is zero, whatever its digits.
\<close>

definition unsignedDecimal :: "jsstring \<Rightarrow> jsnum option" where
  "unsignedDecimal u =
     (let ip = takeWhile isDigit u;
          r1 = dropWhile isDigit u;
          dot = (take 1 r1 = lit ''.'');
          fp = (if dot then takeWhile isDigit (drop 1 r1) else []);
          r2 = (if dot then dropWhile isDigit (drop 1 r1) else r1)
      in if ip = [] \<and> fp = [] then None
         else
           (case (digitsValue 10 (ip @ fp), exponentPart r2) of
              (Some m, Some e) \<Rightarrow>
                (let shift = e - int (length fp);
                     reach = width 10 m + shift
                 in if m = 0 then Some (Finite 0)
                    else if 310 < reach then Some PosInfinity
                    else if reach < - 330 then Some (Finite 0)
                    else Some (nearestDouble (of_int m * scale 10 shift)))
            | _ \<Rightarrow> None))"

definition negate :: "jsnum \<Rightarrow> jsnum" where
  "negate x =
     (case x of NegInfinity \<Rightarrow> PosInfinity | Finite r \<Rightarrow> Finite (- r) | PosInfinity \<Rightarrow> NegInfinity)"

definition StringToNumber :: "jsstring \<Rightarrow> jsnum option" where
  "StringToNumber str =
     (let t = trim str;
          p = take 2 t;
          radix = (if p = lit ''0x'' \<or> p = lit ''0X'' then 16
                   else if p = lit ''0o'' \<or> p = lit ''0O'' then 8
                   else if p = lit ''0b'' \<or> p = lit ''0B'' then 2 else 0)
      in if t = [] then Some (Finite 0)
         else if radix \<noteq> 0 then
           map_option (\<lambda>n. nearestDouble (of_int n)) (digitsValue radix (drop 2 t))
         else
           (let signed = (take 1 t = lit ''-'' \<or> take 1 t = lit ''+'');
                u = (if signed then drop 1 t else t);
                r = (if u = lit ''Infinity'' then Some PosInfinity else unsignedDecimal u)
            in if take 1 t = lit ''-'' then map_option negate r else r))"

text \<open>
  The engine of the examples: the two conversions above, the source text of a built-in
  function as V8 prints it, and V8's message for a failed conversion to a primitive.
\<close>

definition exampleRuntime :: runtime where
  "exampleRuntime =
     \<lparr>numberToString = Number_toString, stringToNumber = StringToNumber,
      nativeSource = (\<lambda>name. lit ''function '' @ name @ lit ''() { [native code] }''),
      typeErrorMessage = lit ''Cannot convert object to primitive value''\<rparr>"

section \<open>The values of the examples\<close>

text \<open>
  A segmentation entry whose score is given in hundredths, one file and a few responses.
  The theorems themselves are about every engine and every environment.
\<close>

definition segment :: "nat \<Rightarrow> string \<Rightarrow> json" where
  "segment percent m =
     JObj [(lit ''score'', JNum (Finite (of_nat percent / 100))), (lit ''mask'', JStr (lit m))]"

definition pizzaPhoto :: jsfile where
  "pizzaPhoto = \<lparr>fileName = lit ''pizza.png'', fileType = lit ''image/png'',
                  fileBytes = [0x89, 0x50, 0x4E, 0x47]\<rparr>"

definition imageResponse :: response where
  "imageResponse =
     \<lparr>ok = True, status = 200, statusText = lit ''OK'',
      textBody = Inl (Error (lit ''not text'')), jsonBody = Inl (Error (lit ''not JSON'')),
      blobBody = Inr [0x89, 0x50, 0x4E, 0x47, 0x0D, 0x0A]\<rparr>"

definition segmentsResponse :: response where
  "segmentsResponse =
     \<lparr>ok = True, status = 200, statusText = lit ''OK'',
      textBody = Inl (Error (lit ''not text'')),
      jsonBody = Inr (JArr [segment 20 ''AAAA'', segment 91 ''BBBB'',
                            segment 50 ''CCCC'']),
      blobBody = Inl (Error (lit ''not a blob''))\<rparr>"

definition refusal :: "jsstring \<Rightarrow> response" where
  "refusal detail =
     \<lparr>ok = False, status = 503, statusText = lit ''Service Unavailable'',
      textBody = Inr detail, jsonBody = Inl (Error (lit ''not JSON'')),
      blobBody = Inl (Error (lit ''not a blob''))\<rparr>"

definition server :: "response \<Rightarrow> env" where
  "server resp =
     \<lparr>engine = exampleRuntime, fetch = (\<lambda>req. Inr resp),
      readAsDataURL = browserRead\<rparr>"

text \<open>What the page holds when the button is clicked: a key, the food Pizza, a mode, a photo.\<close>

definition click :: "string \<Rightarrow> string \<Rightarrow> jsfile option \<Rightarrow> inputs" where
  "click key mode photo =
     \<lparr>apiKeyValue = lit key, foodValue = lit ''Pizza'', editValue = lit mode, photoFile = photo\<rparr>"

section \<open>Facts about the embedding of literals\<close>

lemma lit_inj: "inj (\<lambda>c::char. (word_of_nat (of_char c) :: 16 word))"
proof (rule inj_on_inverseI)
  fix c :: char
  have "unat (word_of_nat (of_char c) :: 16 word) = of_char c"
    by (simp add: unat_of_nat take_bit_nat_eq_self_iff order_less_trans [OF nat_of_char_less_256])
  then show "char_of (unat (word_of_nat (of_char c) :: 16 word)) = c"
    by simp
qed

lemma lit_eq_iff [simp]: "lit a = lit b \<longleftrightarrow> a = b"
  by (simp add: lit_def lit_inj)

lemma lit_append: "lit (a @ b) = lit a @ lit b"
  by (simp add: lit_def)

lemma lit_Nil [simp]: "lit [] = []"
  by (simp add: lit_def)

lemma lit_eq_Nil [simp]: "lit a = [] \<longleftrightarrow> a = []"
  by (simp add: lit_def)

lemma length_lit [simp]: "length (lit a) = length a"
  by (simp add: lit_def)

section \<open>Mask selection\<close>

lemma numScore_truthy: "numScore x = Some n \<Longrightarrow> truthy x"
  by (cases x) (simp_all add: numScore_def)

lemma greaterThan_numbers:
  "greaterThan rt (Some (JNum n)) (Some (JNum m)) = Inr (m < n)"
  by (simp add: greaterThan_def isLessThan_def)

lemma numScore_member: "numScore x = Some n \<Longrightarrow> getMember x (lit ''score'') = Some (JNum n)"
  by (auto simp: numScore_def split: option.splits json.splits)

lemma pick_numeric:
  assumes "numScore a = Some m" and "numScore x = Some n"
  shows "pick rt a x = Inr (if m < n then x else a)"
  using assms numScore_truthy [OF assms(1)] numScore_truthy [OF assms(2)]
  by (simp add: pick_def numScore_member greaterThan_numbers)

lemma reduceFrom_first_max:
  assumes "numScore a = Some m" and "list_all (\<lambda>x. numScore x \<noteq> None) xs"
  shows "\<exists>before best after n. a # xs = before @ best # after
           \<and> reduceFrom (pick rt) a xs = Inr best \<and> numScore best = Some n
           \<and> (\<forall>x\<in>set before. \<exists>k. numScore x = Some k \<and> k < n)
           \<and> (\<forall>x\<in>set after. \<exists>k. numScore x = Some k \<and> k \<le> n)"
  using assms
proof (induction xs arbitrary: a m)
  case Nil
  have "[a] = [] @ a # []" by simp
  moreover have "reduceFrom (pick rt) a [] = Inr a" by simp
  ultimately show ?case using Nil.prems(1) by (metis empty_iff empty_set)
next
  case (Cons x xs)
  from Cons.prems obtain k where k: "numScore x = Some k" by auto
  from Cons.prems have rest: "list_all (\<lambda>x. numScore x \<noteq> None) xs" by simp
  show ?case
  proof (cases "m < k")
    case True
    from Cons.IH [OF k rest] obtain b best af n where
      split: "x # xs = b @ best # af" and res: "reduceFrom (pick rt) x xs = Inr best"
      and n: "numScore best = Some n"
      and lo: "\<forall>y\<in>set b. \<exists>j. numScore y = Some j \<and> j < n"
      and hi: "\<forall>y\<in>set af. \<exists>j. numScore y = Some j \<and> j \<le> n"
      by blast
    have "k \<le> n"
    proof (cases b)
      case Nil
      with split k n show ?thesis by simp
    next
      case (Cons y ys)
      with split lo k show ?thesis by fastforce
    qed
    with True have "m < n" by simp
    with Cons.prems(1) lo have lo': "\<forall>y\<in>set (a # b). \<exists>j. numScore y = Some j \<and> j < n"
      by simp
    have "a # x # xs = (a # b) @ best # af" using split by simp
    moreover have "reduceFrom (pick rt) a (x # xs) = Inr best"
      using res True by (simp add: pick_numeric [OF Cons.prems(1) k])
    ultimately show ?thesis using n lo' hi by blast
  next
    case False
    from Cons.IH [OF Cons.prems(1) rest] obtain b best af n where
      split: "a # xs = b @ best # af" and res: "reduceFrom (pick rt) a xs = Inr best"
      and n: "numScore best = Some n"
      and lo: "\<forall>y\<in>set b. \<exists>j. numScore y = Some j \<and> j < n"
      and hi: "\<forall>y\<in>set af. \<exists>j. numScore y = Some j \<and> j \<le> n"
      by blast
    have run: "reduceFrom (pick rt) a (x # xs) = Inr best"
      using res False by (simp add: pick_numeric [OF Cons.prems(1) k])
    show ?thesis
    proof (cases b)
      case Nil
      with split have "best = a" and "af = xs" by simp_all
      with n Cons.prems(1) have "n = m" by simp
      have "a # x # xs = [] @ best # (x # af)" using \<open>best = a\<close> \<open>af = xs\<close> by simp
      moreover have "\<forall>y\<in>set (x # af). \<exists>j. numScore y = Some j \<and> j \<le> n"
        using hi k False \<open>n = m\<close> by auto
      ultimately show ?thesis using run n by (metis empty_iff empty_set)
    next
      case (Cons y ys)
      with split have "y = a" and ys: "xs = ys @ best # af" by simp_all
      with lo Cons Cons.prems(1) have "m < n" by auto
      have "a # x # xs = (a # x # ys) @ best # af" using ys by simp
      moreover have "\<forall>z\<in>set (a # x # ys). \<exists>j. numScore z = Some j \<and> j < n"
        using lo Cons \<open>y = a\<close> k False \<open>m < n\<close> by auto
      ultimately show ?thesis using run n hi by blast
    qed
  qed
qed


lemma reduceFrom_below:
  assumes "numScore acc = Some m" and "m < n" and "numScore best = Some n"
    and "\<forall>y\<in>set ys. \<exists>k. numScore y = Some k \<and> k < n"
  shows "reduceFrom (pick rt) acc (ys @ best # zs) = reduceFrom (pick rt) best zs"
  using assms
proof (induction ys arbitrary: acc m)
  case Nil
  then show ?case by (simp add: pick_numeric)
next
  case (Cons y ys)
  then obtain k where k: "numScore y = Some k" "k < n" by auto
  from Cons.prems have rest: "\<forall>y\<in>set ys. \<exists>k. numScore y = Some k \<and> k < n" by simp
  show ?case
  proof (cases "m < k")
    case True
    then show ?thesis
      using Cons.IH [OF k(1) k(2) Cons.prems(3) rest] Cons.prems(1) k(1) by (simp add: pick_numeric)
  next
    case False
    then show ?thesis
      using Cons.IH [OF Cons.prems(1) Cons.prems(2) Cons.prems(3) rest] Cons.prems(1) k(1)
      by (simp add: pick_numeric)
  qed
qed

lemma reduceFrom_keeps:
  assumes "numScore acc = Some n" and "\<forall>z\<in>set zs. \<exists>k. numScore z = Some k \<and> k \<le> n"
  shows "reduceFrom (pick rt) acc zs = Inr acc"
  using assms
proof (induction zs)
  case Nil
  then show ?case by simp
next
  case (Cons z zs)
  then obtain k where "numScore z = Some k" "k \<le> n" by auto
  then have "\<not> n < k" by simp
  with Cons \<open>numScore z = Some k\<close> show ?case by (simp add: pick_numeric)
qed

lemma selectBest_split:
  assumes "numScore best = Some n"
    and "\<forall>y\<in>set before. \<exists>k. numScore y = Some k \<and> k < n"
    and "\<forall>z\<in>set after. \<exists>k. numScore z = Some k \<and> k \<le> n"
  shows "selectBest rt (before @ best # after) = Inr best"
proof (cases before)
  case Nil
  then show ?thesis using assms by (simp add: selectBest_def reduce_def reduceFrom_keeps)
next
  case (Cons a ys)
  with assms(2) obtain m where m: "numScore a = Some m" "m < n" by auto
  from Cons assms(2) have "\<forall>y\<in>set ys. \<exists>k. numScore y = Some k \<and> k < n" by simp
  from reduceFrom_below [OF m(1) m(2) assms(1) this]
  show ?thesis using Cons assms by (simp add: selectBest_def reduce_def reduceFrom_keeps)
qed

text \<open>
  Claim C1. On a non-empty array whose entries are all objects with a number under
  \<open>score\<close>, the selection step returns an entry of the array whose score no entry
  exceeds, and every entry standing before it has a strictly smaller score: it is the
  first entry of maximal score, wherever that entry stands.
\<close>

theorem mask_selection_first_maximum:
  assumes "xs \<noteq> []" and "list_all (\<lambda>x. numScore x \<noteq> None) xs"
  shows "\<exists>before best after n. xs = before @ best # after
           \<and> selectBest rt xs = Inr best \<and> numScore best = Some n
           \<and> (\<forall>x\<in>set before. \<exists>k. numScore x = Some k \<and> k < n)
           \<and> (\<forall>x\<in>set after. \<exists>k. numScore x = Some k \<and> k \<le> n)"
proof -
  from assms obtain a rest where xs: "xs = a # rest" by (cases xs) auto
  with assms(2) obtain m where "numScore a = Some m" by auto
  moreover from xs assms(2) have "list_all (\<lambda>x. numScore x \<noteq> None) rest" by simp
  ultimately show ?thesis
    using reduceFrom_first_max [of a m rest rt] xs by (simp add: selectBest_def reduce_def)
qed

lemma numScore_segment [simp]: "numScore (segment percent m) = Some (Finite (of_nat percent / 100))"
  by (simp add: numScore_def segment_def)

text \<open>The scores 0.2, 0.91 and 0.5 of the specification: the entry with 0.91 is selected.\<close>

theorem mask_selection_first_maximum_witness:
  "[segment 20 ''AAAA'', segment 91 ''BBBB'', segment 50 ''CCCC''] \<noteq> []
   \<and> list_all (\<lambda>x. numScore x \<noteq> None)
        [segment 20 ''AAAA'', segment 91 ''BBBB'', segment 50 ''CCCC'']
   \<and> selectBest exampleRuntime
        [segment 20 ''AAAA'', segment 91 ''BBBB'', segment 50 ''CCCC'']
      = Inr (segment 91 ''BBBB'')
   \<and> (\<exists>before best after n.
        [segment 20 ''AAAA'', segment 91 ''BBBB'', segment 50 ''CCCC'']
          = before @ best # after
        \<and> selectBest exampleRuntime
            [segment 20 ''AAAA'', segment 91 ''BBBB'', segment 50 ''CCCC'']
           = Inr best
        \<and> numScore best = Some n
        \<and> (\<forall>x\<in>set before. \<exists>k. numScore x = Some k \<and> k < n)
        \<and> (\<forall>x\<in>set after. \<exists>k. numScore x = Some k \<and> k \<le> n))"
proof -
  have ne: "[segment 20 ''AAAA'', segment 91 ''BBBB'', segment 50 ''CCCC''] \<noteq> []"
    by simp
  have num: "list_all (\<lambda>x. numScore x \<noteq> None)
      [segment 20 ''AAAA'', segment 91 ''BBBB'', segment 50 ''CCCC'']"
    by simp
  have run: "selectBest exampleRuntime
      [segment 20 ''AAAA'', segment 91 ''BBBB'', segment 50 ''CCCC'']
      = Inr (segment 91 ''BBBB'')"
    by (simp add: selectBest_def reduce_def pick_numeric)
  from mask_selection_first_maximum [OF ne num, of exampleRuntime] ne num run
  show ?thesis by blast
qed


section \<open>The decode path\<close>

lemma joinWith_error:
  "joinWith sep rs = Inl e \<Longrightarrow> Inl e \<in> set rs"
  by (induction sep rs rule: joinWith.induct) (auto split: sum.splits)

lemma toString_error: "toString rt v = Inl e \<Longrightarrow> e = TypeError"
proof (induction rt v rule: toString.induct)
  case (5 rt xs)
  from joinWith_error [OF "5.prems" [simplified]]
  obtain x where "x \<in> set xs" and "(if x = JNull then Inr [] else toString rt x) = Inl e"
    by auto
  with "5.IH" show ?case by (auto split: if_splits)
qed (auto split: if_splits)

lemma toPrimitive_error: "toPrimitive rt v = Inl e \<Longrightarrow> e = TypeError"
  by (induction rt v rule: toPrimitive.induct)
    (auto simp del: toString.simps split: sum.splits dest: toString_error)

lemma greaterThan_error: "greaterThan rt a b = Inl e \<Longrightarrow> e = TypeError"
  by (auto simp: greaterThan_def isLessThan_def split: sum.splits dest: toPrimitive_error)

lemma pick_error: "pick rt acc item = Inl e \<Longrightarrow> e = TypeError"
  by (auto simp: pick_def split: if_splits sum.splits dest: greaterThan_error)

lemma reduceFrom_pick_error: "reduceFrom (pick rt) acc xs = Inl e \<Longrightarrow> e = TypeError"
  by (induction xs arbitrary: acc) (auto split: sum.splits dest: pick_error)

lemma selectBest_error: "selectBest rt xs = Inl e \<Longrightarrow> e = TypeError"
  by (auto simp: selectBest_def reduce_def split: list.splits dest: reduceFrom_pick_error)

lemma messages_differ [simp]:
  "emptyResult \<noteq> missingField" "missingField \<noteq> emptyResult"
  "emptyResult \<noteq> TypeError" "missingField \<noteq> TypeError"
  "TypeError \<noteq> emptyResult" "TypeError \<noteq> missingField"
  by (simp_all add: emptyResult_def missingField_def)

lemma decodeMask_not_array:
  "(\<forall>xs. parsed = JArr xs \<longrightarrow> xs = []) \<Longrightarrow> decodeMask rt parsed = Inl emptyResult"
  by (cases parsed) (simp_all add: decodeMask_def)

lemma decodeMask_selected:
  assumes "xs \<noteq> []" and "selectBest rt xs = Inr best"
  shows "decodeMask rt (JArr xs) =
           (if \<not> truthy best then Inl missingField
            else (case getMember best (lit ''mask'') of
                    None \<Rightarrow> Inl missingField
                  | Some m \<Rightarrow>
                      (if \<not> truthy m then Inl missingField
                       else (case toString rt m of
                               Inl e \<Rightarrow> Inl e
                             | Inr s \<Rightarrow> Inr (lit ''data:image/png;base64,'' @ s)))))"
  using assms by (simp add: decodeMask_def)

lemma decodeMask_emptyResult_iff:
  "decodeMask rt parsed = Inl emptyResult \<longleftrightarrow> (\<forall>xs. parsed = JArr xs \<longrightarrow> xs = [])"
proof
  assume r: "decodeMask rt parsed = Inl emptyResult"
  show "\<forall>xs. parsed = JArr xs \<longrightarrow> xs = []"
  proof (intro allI impI, rule ccontr)
    fix xs assume p: "parsed = JArr xs" and ne: "xs \<noteq> []"
    show False
    proof (cases "selectBest rt xs")
      case (Inl e)
      with r p ne selectBest_error [OF Inl] show False by (simp add: decodeMask_def)
    next
      case (Inr best)
      from r show False
        unfolding p decodeMask_selected [OF ne Inr]
        by (auto split: if_splits option.splits sum.splits dest: toString_error)
    qed
  qed
qed (rule decodeMask_not_array)

lemma decodeMask_missingField_iff:
  assumes "xs \<noteq> []" and "selectBest rt xs = Inr best"
  shows "decodeMask rt (JArr xs) = Inl missingField \<longleftrightarrow>
           (\<not> truthy best \<or> getMember best (lit ''mask'') = None
            \<or> (\<exists>m. getMember best (lit ''mask'') = Some m \<and> \<not> truthy m))"
  unfolding decodeMask_selected [OF assms]
  by (auto split: option.splits sum.splits dest: toString_error)

lemma getMember_truthy: "getMember v k = Some m \<Longrightarrow> truthy v"
  by (cases v) simp_all

lemma primLess_undefined [simp]:
  "primLess rt px PUndefined = None" "primLess rt PUndefined py = None"
  by (cases px; simp split: option.splits) (cases py; simp)

lemma pick_falsy_accumulator: "\<not> truthy acc \<Longrightarrow> pick rt acc item = Inr item"
  by (simp add: pick_def)

lemma pick_missing_score:
  assumes "truthy acc" and "getMember item (lit ''score'') = None"
  shows "pick rt acc item = Inr acc \<or> pick rt acc item = Inl TypeError"
proof (cases "toPrimitive rt (getMember acc (lit ''score''))")
  case (Inl e)
  with toPrimitive_error [OF Inl] assms show ?thesis
    by (simp add: pick_def greaterThan_def isLessThan_def)
next
  case (Inr px)
  with assms show ?thesis
    by (simp add: pick_def greaterThan_def isLessThan_def split: option.splits)
qed

lemma pick_incomparable:
  assumes "truthy acc"
    and "isLessThan rt (getMember acc (lit ''score'')) (getMember item (lit ''score'')) = Inr None"
  shows "pick rt acc item = Inr acc"
  using assms by (simp add: pick_def greaterThan_def)

lemma reduceFrom_no_scores:
  assumes "truthy x" and "getMember x (lit ''score'') = None"
    and "list_all (\<lambda>y. getMember y (lit ''score'') = None) xs"
  shows "reduceFrom (pick rt) x xs = Inr x"
  using assms(3)
proof (induction xs)
  case Nil
  then show ?case by simp
next
  case (Cons y ys)
  then have "pick rt x y = Inr x"
    using assms(1,2) by (simp add: pick_def greaterThan_def isLessThan_def)
  with Cons show ?case by simp
qed


text \<open>
  Claim C5, as amended. On the parsed body, the decode path fails with the empty-result
  error exactly when the body is not a non-empty array. When the selection returns an
  entry, it fails with the missing-mask error exactly when that entry is falsy, or has no
  \<open>mask\<close>, or has a falsy one (\<open>null\<close>, \<open>false\<close>, zero, the empty string);
  otherwise it returns \<open>data:image/png;base64,\<close> followed by the mask converted to a
  string, which is the mask itself when it is a string, or the TypeError of that
  conversion. A selection that throws makes the decode path throw its TypeError.
\<close>

theorem decode_outcomes:
  "(decodeMask rt parsed = Inl emptyResult \<longleftrightarrow> (\<forall>xs. parsed = JArr xs \<longrightarrow> xs = []))
   \<and> (\<forall>xs e. parsed = JArr xs \<and> xs \<noteq> [] \<and> selectBest rt xs = Inl e
         \<longrightarrow> decodeMask rt parsed = Inl TypeError)
   \<and> (\<forall>xs best. parsed = JArr xs \<and> xs \<noteq> [] \<and> selectBest rt xs = Inr best \<longrightarrow>
         (decodeMask rt parsed = Inl missingField \<longleftrightarrow>
            (\<not> truthy best \<or> getMember best (lit ''mask'') = None
             \<or> (\<exists>m. getMember best (lit ''mask'') = Some m \<and> \<not> truthy m)))
         \<and> (\<forall>m. getMember best (lit ''mask'') = Some m \<and> truthy m \<longrightarrow>
               decodeMask rt parsed =
                 (case toString rt m of
                    Inl e \<Rightarrow> Inl e
                  | Inr s \<Rightarrow> Inr (lit ''data:image/png;base64,'' @ s)))
         \<and> (\<forall>s. getMember best (lit ''mask'') = Some (JStr s) \<and> s \<noteq> [] \<longrightarrow>
               decodeMask rt parsed = Inr (lit ''data:image/png;base64,'' @ s)))"
proof (intro conjI allI impI)
  show "decodeMask rt parsed = Inl emptyResult \<longleftrightarrow> (\<forall>xs. parsed = JArr xs \<longrightarrow> xs = [])"
    by (rule decodeMask_emptyResult_iff)
next
  fix xs e
  assume "parsed = JArr xs \<and> xs \<noteq> [] \<and> selectBest rt xs = Inl e"
  then show "decodeMask rt parsed = Inl TypeError"
    using selectBest_error [of rt xs e] by (simp add: decodeMask_def)
next
  fix xs best
  assume h: "parsed = JArr xs \<and> xs \<noteq> [] \<and> selectBest rt xs = Inr best"
  then show "decodeMask rt parsed = Inl missingField \<longleftrightarrow>
      (\<not> truthy best \<or> getMember best (lit ''mask'') = None
       \<or> (\<exists>m. getMember best (lit ''mask'') = Some m \<and> \<not> truthy m))"
    using decodeMask_missingField_iff [of xs rt best] by simp
next
  fix xs best m
  assume h: "parsed = JArr xs \<and> xs \<noteq> [] \<and> selectBest rt xs = Inr best"
    and m: "getMember best (lit ''mask'') = Some m \<and> truthy m"
  with getMember_truthy [of best "lit ''mask''" m]
  show "decodeMask rt parsed =
      (case toString rt m of Inl e \<Rightarrow> Inl e | Inr s \<Rightarrow> Inr (lit ''data:image/png;base64,'' @ s))"
    using decodeMask_selected [of xs rt best] by simp
next
  fix xs best s
  assume h: "parsed = JArr xs \<and> xs \<noteq> [] \<and> selectBest rt xs = Inr best"
    and m: "getMember best (lit ''mask'') = Some (JStr s) \<and> s \<noteq> []"
  with getMember_truthy [of best "lit ''mask''" "JStr s"]
  show "decodeMask rt parsed = Inr (lit ''data:image/png;base64,'' @ s)"
    using decodeMask_selected [of xs rt best] by simp
qed

lemma selectBest_three_segments:
  "selectBest rt [segment 20 ''AAAA'', segment 91 ''BBBB'', segment 50 ''CCCC'']
     = Inr (segment 91 ''BBBB'')"
  by (simp add: selectBest_def reduce_def pick_numeric)

text \<open>The three entries of the example decode to the data URL of the second mask.\<close>

theorem decode_outcomes_witness:
  "selectBest exampleRuntime
      [segment 20 ''AAAA'', segment 91 ''BBBB'', segment 50 ''CCCC'']
     = Inr (segment 91 ''BBBB'')
   \<and> getMember (segment 91 ''BBBB'') (lit ''mask'') = Some (JStr (lit ''BBBB''))
   \<and> decodeMask exampleRuntime
        (JArr [segment 20 ''AAAA'', segment 91 ''BBBB'', segment 50 ''CCCC''])
      = Inr (lit ''data:image/png;base64,BBBB'')
   \<and> decodeMask exampleRuntime
        (JArr [segment 20 ''AAAA'', segment 91 ''BBBB'', segment 50 ''CCCC''])
      \<noteq> Inl missingField
   \<and> decodeMask exampleRuntime
        (JArr [segment 20 ''AAAA'', segment 91 ''BBBB'', segment 50 ''CCCC''])
      \<noteq> Inl emptyResult"
proof -
  let ?xs = "[segment 20 ''AAAA'', segment 91 ''BBBB'', segment 50 ''CCCC'']"
  have sel: "selectBest exampleRuntime ?xs = Inr (segment 91 ''BBBB'')"
    by (rule selectBest_three_segments)
  have mask: "getMember (segment 91 ''BBBB'') (lit ''mask'') = Some (JStr (lit ''BBBB''))"
    by (simp add: segment_def)
  from decode_outcomes [of exampleRuntime "JArr ?xs"] sel mask
  have "decodeMask exampleRuntime (JArr ?xs) = Inr (lit ''data:image/png;base64,'' @ lit ''BBBB'')"
    by simp
  then have "decodeMask exampleRuntime (JArr ?xs) = Inr (lit ''data:image/png;base64,BBBB'')"
    by (simp add: lit_append [symmetric])
  with sel mask show ?thesis by simp
qed

text \<open>
  Claim C5 as stated fails: the only entry has a \<open>mask\<close> field, holding the empty
  string, and the decode path still reports a missing mask.
\<close>

theorem decode_empty_mask_counterexample:
  "getMember (segment 90 []) (lit ''mask'') = Some (JStr [])
   \<and> selectBest exampleRuntime [segment 90 []] = Inr (segment 90 [])
   \<and> decodeMask exampleRuntime (JArr [segment 90 []]) = Inl missingField"
  by (simp add: segment_def decodeMask_def selectBest_def reduce_def)


text \<open>
  Claim C10, as amended. When the first entry of maximal score has no \<open>mask\<close>, the
  decode path fails with the missing-mask error whatever masks the other entries hold.
  Against a truthy accumulator, an entry without a score is never preferred (the step
  keeps the accumulator, or throws when the accumulator's own score cannot be converted),
  and neither is an entry whose score is not comparable with the accumulator's
  (IsLessThan answers \<open>undefined\<close>). A falsy accumulator is always replaced by the next
  entry. So an array whose first entry is truthy and whose entries all lack a score
  yields its first entry.
\<close>

theorem selection_by_score_alone:
  "(\<forall>before best after n.
      numScore best = Some n
      \<and> (\<forall>y\<in>set before. \<exists>k. numScore y = Some k \<and> k < n)
      \<and> (\<forall>z\<in>set after. \<exists>k. numScore z = Some k \<and> k \<le> n)
      \<and> getMember best (lit ''mask'') = None
      \<longrightarrow> decodeMask rt (JArr (before @ best # after)) = Inl missingField)
   \<and> (\<forall>acc item. truthy acc \<and> getMember item (lit ''score'') = None
         \<longrightarrow> pick rt acc item = Inr acc \<or> pick rt acc item = Inl TypeError)
   \<and> (\<forall>acc item. truthy acc
         \<and> isLessThan rt (getMember acc (lit ''score'')) (getMember item (lit ''score'')) = Inr None
         \<longrightarrow> pick rt acc item = Inr acc)
   \<and> (\<forall>acc item. \<not> truthy acc \<longrightarrow> pick rt acc item = Inr item)
   \<and> (\<forall>x xs. truthy x \<and> list_all (\<lambda>y. getMember y (lit ''score'') = None) (x # xs)
         \<longrightarrow> selectBest rt (x # xs) = Inr x)"
proof (intro conjI allI impI)
  fix before best after n
  assume h: "numScore best = Some n
      \<and> (\<forall>y\<in>set before. \<exists>k. numScore y = Some k \<and> k < n)
      \<and> (\<forall>z\<in>set after. \<exists>k. numScore z = Some k \<and> k \<le> n)
      \<and> getMember best (lit ''mask'') = None"
  then have "selectBest rt (before @ best # after) = Inr best"
    using selectBest_split [of best n before after rt] by blast
  with h numScore_truthy [of best n] show "decodeMask rt (JArr (before @ best # after)) = Inl missingField"
    by (simp add: decodeMask_def)
next
  fix acc item
  assume "truthy acc \<and> getMember item (lit ''score'') = None"
  then show "pick rt acc item = Inr acc \<or> pick rt acc item = Inl TypeError"
    using pick_missing_score by blast
next
  fix acc item
  assume "truthy acc
      \<and> isLessThan rt (getMember acc (lit ''score'')) (getMember item (lit ''score'')) = Inr None"
  then show "pick rt acc item = Inr acc"
    using pick_incomparable by blast
next
  fix acc item :: json
  assume "\<not> truthy acc"
  then show "pick rt acc item = Inr item" by (rule pick_falsy_accumulator)
next
  fix x xs
  assume "truthy x \<and> list_all (\<lambda>y. getMember y (lit ''score'') = None) (x # xs)"
  then show "selectBest rt (x # xs) = Inr x"
    using reduceFrom_no_scores [of x xs rt] by (simp add: selectBest_def reduce_def)
qed

text \<open>
  A middle entry of score 0.91 without a mask between two entries with masks; two
  objects without scores; and \<open>null\<close> as the accumulator.
\<close>

theorem selection_by_score_alone_witness:
  "numScore (JObj [(lit ''score'', JNum (Finite (91/100)))]) = Some (Finite (91/100))
   \<and> getMember (JObj [(lit ''score'', JNum (Finite (91/100)))]) (lit ''mask'') = None
   \<and> decodeMask exampleRuntime
        (JArr [segment 20 ''AAAA'', JObj [(lit ''score'', JNum (Finite (91/100)))],
               segment 50 ''CCCC''])
      = Inl missingField
   \<and> truthy (JObj [(lit ''mask'', JStr (lit ''AAAA''))])
   \<and> selectBest exampleRuntime
        [JObj [(lit ''mask'', JStr (lit ''AAAA''))], JObj [(lit ''mask'', JStr (lit ''BBBB''))]]
      = Inr (JObj [(lit ''mask'', JStr (lit ''AAAA''))])
   \<and> pick exampleRuntime JNull (JObj [(lit ''mask'', JStr (lit ''AAAA''))])
      = Inr (JObj [(lit ''mask'', JStr (lit ''AAAA''))])"
proof -
  let ?best = "JObj [(lit ''score'', JNum (Finite (91/100)))]"
  let ?a = "JObj [(lit ''mask'', JStr (lit ''AAAA''))]"
  let ?b = "JObj [(lit ''mask'', JStr (lit ''BBBB''))]"
  note all = selection_by_score_alone [of exampleRuntime]
  have n: "numScore ?best = Some (Finite (91/100))" by (simp add: numScore_def)
  have m: "getMember ?best (lit ''mask'') = None" by simp
  have lo: "\<forall>y\<in>set [segment 20 ''AAAA'']. \<exists>k. numScore y = Some k \<and> k < Finite (91/100)"
    by simp
  have hi: "\<forall>z\<in>set [segment 50 ''CCCC'']. \<exists>k. numScore z = Some k \<and> k \<le> Finite (91/100)"
    by (simp add: less_eq_jsnum_def)
  from all n m lo hi
  have "decodeMask exampleRuntime (JArr ([segment 20 ''AAAA''] @ ?best # [segment 50 ''CCCC'']))
      = Inl missingField"
    by blast
  then have d: "decodeMask exampleRuntime (JArr [segment 20 ''AAAA'', ?best, segment 50 ''CCCC''])
      = Inl missingField"
    by simp
  have "truthy ?a \<and> list_all (\<lambda>y. getMember y (lit ''score'') = None) [?a, ?b]" by simp
  with all have s: "selectBest exampleRuntime [?a, ?b] = Inr ?a" by blast
  have "\<not> truthy JNull" by simp
  with all have p: "pick exampleRuntime JNull ?a = Inr ?a" by blast
  from n m d s p show ?thesis by simp
qed

text \<open>
  Claim C10 as stated fails: no entry of the array \<open>[null, {"mask": "AAAA"}]\<close> has a
  score, yet the selection yields the second entry, and the decode path succeeds with
  its mask.
\<close>

theorem falsy_first_entry_counterexample:
  "getMember JNull (lit ''score'') = None
   \<and> getMember (JObj [(lit ''mask'', JStr (lit ''AAAA''))]) (lit ''score'') = None
   \<and> selectBest exampleRuntime [JNull, JObj [(lit ''mask'', JStr (lit ''AAAA''))]]
      = Inr (JObj [(lit ''mask'', JStr (lit ''AAAA''))])
   \<and> decodeMask exampleRuntime (JArr [JNull, JObj [(lit ''mask'', JStr (lit ''AAAA''))]])
      = Inr (lit ''data:image/png;base64,AAAA'')"
  by (simp add: decodeMask_def selectBest_def reduce_def pick_def lit_append [symmetric])

section \<open>The prompts\<close>

lemma buildPrompt_altPrompt_proto:
  "buildPrompt_altPrompt rt (lit ''Pizza'') (lit ''__proto__'')
     = lit ''Pizza photo, [object Object], perfect for an online sales site hero banner, shot on DSLR, 4k, realistic textures''"
  by (simp add: buildPrompt_altPrompt_def editDescription_def editMap_def lit_append [symmetric])

lemma buildPrompt_altPrompt_constructor:
  "buildPrompt_altPrompt exampleRuntime (lit ''Pizza'') (lit ''constructor'')
     = lit ''Pizza photo, function Object() { [native code] }, perfect for an online sales site hero banner, shot on DSLR, 4k, realistic textures''"
  by (simp add: buildPrompt_altPrompt_def editDescription_def editMap_def
      objectPrototypeFunctions_def initialName_def exampleRuntime_def lit_append [symmetric])

lemma buildPrompt_altPrompt_unlisted:
  "buildPrompt_altPrompt rt (lit ''Pizza'') (lit ''Sepia'')
     = lit ''Pizza photo, professional food photography, sharp focus, soft studio lighting, perfect for an online sales site hero banner, shot on DSLR, 4k, realistic textures''"
  by (simp add: buildPrompt_altPrompt_def editDescription_def editMap_def
      objectPrototypeFunctions_def lit_append [symmetric])

text \<open>
  Claim C4 fails on the third variant of \<open>buildPrompt\<close>. The mode \<open>Sepia\<close> gets the
  generic clause, but the mode \<open>__proto__\<close> is found on the prototype of the lookup
  table and the prompt carries \<open>[object Object]\<close>; the mode \<open>constructor\<close> carries the
  source text of the built-in function \<open>Object\<close>.
\<close>

theorem buildPrompt_altPrompt_inherited_key:
  "buildPrompt_altPrompt exampleRuntime (lit ''Pizza'') (lit ''Sepia'')
     = lit ''Pizza photo, professional food photography, sharp focus, soft studio lighting, perfect for an online sales site hero banner, shot on DSLR, 4k, realistic textures''
   \<and> buildPrompt_altPrompt exampleRuntime (lit ''Pizza'') (lit ''__proto__'')
     = lit ''Pizza photo, [object Object], perfect for an online sales site hero banner, shot on DSLR, 4k, realistic textures''
   \<and> buildPrompt_altPrompt exampleRuntime (lit ''Pizza'') (lit ''__proto__'')
     \<noteq> buildPrompt_altPrompt exampleRuntime (lit ''Pizza'') (lit ''Sepia'')
   \<and> buildPrompt_altPrompt exampleRuntime (lit ''Pizza'') (lit ''constructor'')
     = lit ''Pizza photo, function Object() { [native code] }, perfect for an online sales site hero banner, shot on DSLR, 4k, realistic textures''"
  by (simp add: buildPrompt_altPrompt_proto buildPrompt_altPrompt_constructor
      buildPrompt_altPrompt_unlisted)

text \<open>
  Beside claim C4: what does hold of \<open>buildPrompt\<close> in src/app.js and in the three-model
  variant. The prompt starts with the food text, is never empty, and ends with the clause
  of the mode, every value other than the two special modes getting the style clause.
\<close>

theorem buildPrompt_shape:
  "prefix food (buildPrompt food editType) \<and> buildPrompt food editType \<noteq> []
   \<and> buildPrompt food (lit ''Background cleaning'')
       = food @ lit '' hero shot, ultra realistic, commercial food photography, shot on a dark matte table, shallow depth of field, cinematic lighting, isolated on a clean soft gradient background, no clutter, product catalog look, web shop ready''
   \<and> buildPrompt food (lit ''Quality improvement'')
       = food @ lit '' hero shot, ultra realistic, commercial food photography, shot on a dark matte table, shallow depth of field, cinematic lighting, crisp 4k detail, noise-free, high dynamic range, sharp textures, studio-grade retouching''
   \<and> (editType \<noteq> lit ''Background cleaning'' \<and> editType \<noteq> lit ''Quality improvement'' \<longrightarrow>
        buildPrompt food editType
          = food @ lit '' hero shot, ultra realistic, commercial food photography, shot on a dark matte table, shallow depth of field, cinematic lighting, modern editorial style, subtle color grading, perfect for a sales landing page hero banner'')"
  by (simp add: buildPrompt_def Let_def lit_append [symmetric])

theorem buildPrompt_shape_witness:
  "lit ''Style'' \<noteq> lit ''Background cleaning'' \<and> lit ''Style'' \<noteq> lit ''Quality improvement''
   \<and> buildPrompt (lit ''Pizza'') (lit ''Style'')
       = lit ''Pizza hero shot, ultra realistic, commercial food photography, shot on a dark matte table, shallow depth of field, cinematic lighting, modern editorial style, subtle color grading, perfect for a sales landing page hero banner''"
  using buildPrompt_shape [of "lit ''Pizza''" "lit ''Style''"]
  by (simp add: lit_append [symmetric])

text \<open>
  Beside claim C4: what does hold of the third variant. The prompt starts with the food
  text and is never empty, the three modes get their clauses, and a mode that is neither
  one of them nor a property name of \<open>Object.prototype\<close> gets the generic clause.
\<close>

theorem buildPrompt_altPrompt_shape:
  "prefix food (buildPrompt_altPrompt rt food editType)
   \<and> buildPrompt_altPrompt rt food editType \<noteq> []
   \<and> buildPrompt_altPrompt rt food (lit ''Style'')
       = food @ lit '' photo, hero shot in a clean, modern style, studio lighting, high contrast, appetizing presentation, perfect for an online sales site hero banner, shot on DSLR, 4k, realistic textures''
   \<and> buildPrompt_altPrompt rt food (lit ''Background cleaning'')
       = food @ lit '' photo, isolated on a clean, soft gradient background, no clutter, studio tabletop photography, perfect for an online sales site hero banner, shot on DSLR, 4k, realistic textures''
   \<and> buildPrompt_altPrompt rt food (lit ''Quality improvement'')
       = food @ lit '' photo, ultra detailed, crisp focus, high-resolution, professional food photography lighting, perfect for an online sales site hero banner, shot on DSLR, 4k, realistic textures''
   \<and> (editType \<noteq> lit ''Style'' \<and> editType \<noteq> lit ''Background cleaning''
        \<and> editType \<noteq> lit ''Quality improvement'' \<and> editType \<noteq> lit ''__proto__''
        \<and> editType \<notin> set (map lit objectPrototypeFunctions) \<longrightarrow>
        buildPrompt_altPrompt rt food editType
          = food @ lit '' photo, professional food photography, sharp focus, soft studio lighting, perfect for an online sales site hero banner, shot on DSLR, 4k, realistic textures'')"
  by (simp add: buildPrompt_altPrompt_def editDescription_def editMap_def lit_append [symmetric])

theorem buildPrompt_altPrompt_shape_witness:
  "lit ''Sepia'' \<notin> set (map lit objectPrototypeFunctions)
   \<and> buildPrompt_altPrompt exampleRuntime (lit ''Pizza'') (lit ''Sepia'')
       = lit ''Pizza photo, professional food photography, sharp focus, soft studio lighting, perfect for an online sales site hero banner, shot on DSLR, 4k, realistic textures''"
  using buildPrompt_altPrompt_shape [of "lit ''Pizza''" exampleRuntime "lit ''Sepia''"]
  by (simp add: objectPrototypeFunctions_def lit_append [symmetric])

section \<open>The base64 text of a file\<close>

lemma indexOf_None_iff: "indexOf c s = None \<longleftrightarrow> c \<notin> set s"
  by (induction s) auto

lemma indexOf_first: "c \<notin> set pre \<Longrightarrow> indexOf c (pre @ c # rest) = Some (length pre)"
  by (induction pre) auto

lemma fileToBase64_no_comma:
  "comma \<notin> set s \<Longrightarrow> fileToBase64 (Loaded (Some s)) = Inr s"
  by (simp add: fileToBase64_def indexOf_None_iff [THEN iffD2])

lemma fileToBase64_first_comma:
  "comma \<notin> set pre \<Longrightarrow> fileToBase64 (Loaded (Some (pre @ comma # rest))) = Inr rest"
  by (simp add: fileToBase64_def indexOf_first)

lemma lit_member: "word_of_nat (of_char c) \<in> set (lit s) \<longleftrightarrow> c \<in> set s"
  unfolding lit_def set_map by (rule inj_image_mem_iff [OF lit_inj])

lemma comma_char: "comma = word_of_nat (of_char CHR '','')"
  by (simp add: comma_def)

lemma comma_not_in_lit: "CHR '','' \<notin> set s \<Longrightarrow> comma \<notin> set (lit s)"
  unfolding comma_char lit_member .

lemma dataUrl_split:
  "dataUrl mediaType b64 = (lit ''data:'' @ mediaType @ lit '';base64'') @ comma # b64"
  by (simp add: dataUrl_def lit_def comma_def)

lemma fileToBase64_dataUrl:
  assumes "comma \<notin> set mediaType"
  shows "fileToBase64 (Loaded (Some (dataUrl mediaType b64))) = Inr b64"
proof -
  have "comma \<notin> set (lit ''data:'' @ mediaType @ lit '';base64'')"
    using assms by (simp add: comma_not_in_lit)
  then show ?thesis
    unfolding dataUrl_split by (rule fileToBase64_first_comma)
qed

lemma index_of_nth:
  "distinct xs \<Longrightarrow> i < length xs \<Longrightarrow> length (takeWhile (\<lambda>x. x \<noteq> xs ! i) xs) = i"
proof (induction xs arbitrary: i)
  case Nil
  then show ?case by simp
next
  case (Cons x xs)
  then show ?case by (cases i) auto
qed

lemma length_alphabet: "length base64Alphabet = 64"
  by (simp add: base64Alphabet_def lit_def)

lemma distinct_alphabet: "distinct base64Alphabet"
  by (simp add: base64Alphabet_def lit_def)

lemma padding_not_in_alphabet: "padding \<notin> set base64Alphabet"
  by (simp add: base64Alphabet_def lit_def padding_def)

lemma sextetOf_sextetChar: "i < 64 \<Longrightarrow> sextetOf (sextetChar i) = i"
  unfolding sextetOf_def sextetChar_def
  by (rule index_of_nth [OF distinct_alphabet]) (simp add: length_alphabet)

lemma sextetChar_not_padding: "i < 64 \<Longrightarrow> sextetChar i \<noteq> padding"
proof
  assume "i < 64" and "sextetChar i = padding"
  then have "padding \<in> set base64Alphabet"
    unfolding sextetChar_def using nth_mem [of i base64Alphabet] by (simp add: length_alphabet)
  with padding_not_in_alphabet show False by simp
qed

lemma unat_byte: "unat (a :: 8 word) < 256"
  using unsigned_less [of a] by simp

text \<open>Three bytes cut into four sextets, and the sextets put together again.\<close>

lemma quartet:
  fixes a b c :: nat
  assumes "a < 256" and "b < 256" and "c < 256"
  shows "a div 4 < 64" and "a mod 4 * 16 + b div 16 < 64" and "b mod 16 * 4 + c div 64 < 64"
    and "c mod 64 < 64"
    and "a div 4 * 4 + (a mod 4 * 16 + b div 16) div 16 = a"
    and "(a mod 4 * 16 + b div 16) mod 16 * 16 + (b mod 16 * 4 + c div 64) div 4 = b"
    and "(b mod 16 * 4 + c div 64) mod 4 * 64 + c mod 64 = c"
proof -
  have b16: "b div 16 < 16" and c64: "c div 64 < 4" using assms by simp_all
  have a4: "a mod 4 < 4" and b4: "b mod 16 < 16" by simp_all
  show "a div 4 < 64" using assms by simp
  show "a mod 4 * 16 + b div 16 < 64" using a4 b16 by linarith
  show "b mod 16 * 4 + c div 64 < 64" using b4 c64 by linarith
  show "c mod 64 < 64" by simp
  show "a div 4 * 4 + (a mod 4 * 16 + b div 16) div 16 = a"
    using b16 by simp
  show "(a mod 4 * 16 + b div 16) mod 16 * 16 + (b mod 16 * 4 + c div 64) div 4 = b"
    using b16 c64 by simp
  show "(b mod 16 * 4 + c div 64) mod 4 * 64 + c mod 64 = c"
    using c64 by simp
qed

lemma unbase64_base64: "unbase64 (base64 bs) = bs"
proof (induction bs rule: base64.induct)
  case 1
  then show ?case by simp
next
  case (2 a)
  note q = quartet [OF unat_byte [of a], of 0 0, simplified]
  show ?case
    using q by (simp add: sextetOf_sextetChar sextetChar_not_padding)
next
  case (3 a b)
  note q = quartet [OF unat_byte [of a] unat_byte [of b], of 0, simplified]
  show ?case
    using q by (simp add: sextetOf_sextetChar sextetChar_not_padding)
next
  case (4 a b c rest)
  note q = quartet [OF unat_byte [of a] unat_byte [of b] unat_byte [of c]]
  show ?case
    using q 4 by (simp add: sextetOf_sextetChar sextetChar_not_padding)
qed

lemma alphabet_nth:
  "sextetChar 34 = 0x69" "sextetChar 21 = 0x56" "sextetChar (Suc 0) = 0x42" "sextetChar 14 = 0x4F"
  "sextetChar 17 = 0x52" "sextetChar 48 = 0x77"
  by (simp_all add: sextetChar_def base64Alphabet_def lit_def)

lemma base64_png: "base64 [0x89, 0x50, 0x4E, 0x47] = lit ''iVBORw==''"
  by (simp add: alphabet_nth padding_def lit_def)

text \<open>
  Claim C7. A result without a comma is returned unchanged. Otherwise everything up to
  and including the first comma is dropped and nothing more: the rest is returned as it
  is, later commas included. For the data URL that \<open>readAsDataURL\<close> produces, whose
  media type contains no comma (RFC 2397 ends the header at the first one), the result
  is exactly the base64 text, so any decoder inverse to the encoder recovers the bytes of
  the file, as the decoder of RFC 4648 does for the browser's encoder.
\<close>

theorem fileToBase64_strips_prefix:
  fixes s pre rest mediaType b64 :: jsstring and f :: jsfile
  shows
  "(comma \<notin> set s \<longrightarrow> fileToBase64 (Loaded (Some s)) = Inr s)
   \<and> (comma \<notin> set pre \<longrightarrow> fileToBase64 (Loaded (Some (pre @ comma # rest))) = Inr rest)
   \<and> (comma \<notin> set mediaType \<longrightarrow>
         fileToBase64 (Loaded (Some (dataUrl mediaType b64))) = Inr b64)
   \<and> (comma \<notin> set mediaType \<and> (\<forall>bs. decode (encode bs) = bs) \<longrightarrow>
         (\<exists>t. fileToBase64 (Loaded (Some (dataUrl mediaType (encode content)))) = Inr t
              \<and> decode t = content))
   \<and> (comma \<notin> set (fileType f) \<longrightarrow>
         (\<exists>t. fileToBase64 (browserRead f) = Inr t \<and> unbase64 t = fileBytes f))"
proof (intro conjI impI)
  assume "comma \<notin> set s"
  then show "fileToBase64 (Loaded (Some s)) = Inr s" by (rule fileToBase64_no_comma)
next
  assume "comma \<notin> set pre"
  then show "fileToBase64 (Loaded (Some (pre @ comma # rest))) = Inr rest"
    by (rule fileToBase64_first_comma)
next
  assume "comma \<notin> set mediaType"
  then show "fileToBase64 (Loaded (Some (dataUrl mediaType b64))) = Inr b64"
    by (rule fileToBase64_dataUrl)
next
  assume "comma \<notin> set mediaType \<and> (\<forall>bs. decode (encode bs) = bs)"
  then show "\<exists>t. fileToBase64 (Loaded (Some (dataUrl mediaType (encode content)))) = Inr t
      \<and> decode t = content"
    by (simp add: fileToBase64_dataUrl)
next
  assume "comma \<notin> set (fileType f)"
  then show "\<exists>t. fileToBase64 (browserRead f) = Inr t \<and> unbase64 t = fileBytes f"
    by (simp add: browserRead_def fileToBase64_dataUrl unbase64_base64)
qed

text \<open>
  A bare base64 text, a data URL whose data holds further commas, and the PNG file of
  the examples, whose four bytes come back from \<open>iVBORw==\<close>.
\<close>

theorem fileToBase64_strips_prefix_witness:
  "comma \<notin> set (lit ''iVBORw=='')
   \<and> fileToBase64 (Loaded (Some (lit ''iVBORw==''))) = Inr (lit ''iVBORw=='')
   \<and> comma \<notin> set (lit ''data:text/plain'')
   \<and> fileToBase64 (Loaded (Some (lit ''data:text/plain'' @ comma # lit ''a,b,c'')))
       = Inr (lit ''a,b,c'')
   \<and> comma \<notin> set (fileType pizzaPhoto)
   \<and> fileToBase64 (browserRead pizzaPhoto) = Inr (lit ''iVBORw=='')
   \<and> unbase64 (lit ''iVBORw=='') = fileBytes pizzaPhoto"
proof -
  have a: "comma \<notin> set (lit ''iVBORw=='')" by (rule comma_not_in_lit) simp
  have b: "comma \<notin> set (lit ''data:text/plain'')" by (rule comma_not_in_lit) simp
  have c: "comma \<notin> set (fileType pizzaPhoto)"
    unfolding pizzaPhoto_def by (simp add: comma_not_in_lit)
  have d: "\<forall>bs. unbase64 (base64 bs) = bs" by (simp add: unbase64_base64)
  have e: "base64 (fileBytes pizzaPhoto) = lit ''iVBORw==''"
    by (simp add: pizzaPhoto_def base64_png del: base64.simps)
  note strip = fileToBase64_strips_prefix [where s = "lit ''iVBORw==''"
      and pre = "lit ''data:text/plain''" and rest = "lit ''a,b,c''"
      and mediaType = "fileType pizzaPhoto" and ?b64.0 = "base64 (fileBytes pizzaPhoto)"
      and encode = base64 and decode = unbase64 and content = "fileBytes pizzaPhoto"
      and f = pizzaPhoto]
  from strip a b c d have
    "fileToBase64 (Loaded (Some (lit ''iVBORw==''))) = Inr (lit ''iVBORw=='')"
    "fileToBase64 (Loaded (Some (lit ''data:text/plain'' @ comma # lit ''a,b,c'')))
       = Inr (lit ''a,b,c'')"
    "\<exists>t. fileToBase64 (browserRead pizzaPhoto) = Inr t \<and> unbase64 t = fileBytes pizzaPhoto"
    by blast+
  moreover have "fileToBase64 (browserRead pizzaPhoto) = Inr (lit ''iVBORw=='')"
    using c e by (simp add: browserRead_def fileToBase64_dataUrl)
  ultimately show ?thesis using a b c by auto
qed

section \<open>Failure messages\<close>

lemma shortDetail_long: "bound < length d \<Longrightarrow> shortDetail bound d = take bound d @ ellipsis"
  by (auto simp: shortDetail_def)

lemma shortDetail_short: "length d \<le> bound \<Longrightarrow> shortDetail bound d = d"
  by (simp add: shortDetail_def)

lemma shortDetail_Nil_iff [simp]: "shortDetail bound d = [] \<longleftrightarrow> d = []"
  by (simp add: shortDetail_def ellipsis_def)

lemma length_ellipsis [simp]: "length ellipsis = 1"
  by (simp add: ellipsis_def)

lemma failure_long:
  assumes "textBody resp = Inr d" and "160 < length d"
  shows "failure base resp = Error (base @ lit '' Details: '' @ take 160 d @ ellipsis)"
  using assms by (auto simp: failure_def fullMessage_def readDetail_def shortDetail_long)

lemma failure_short:
  assumes "textBody resp = Inr d" and "d \<noteq> []" and "length d \<le> 160"
  shows "failure base resp = Error (base @ lit '' Details: '' @ d)"
  using assms by (simp add: failure_def fullMessage_def readDetail_def shortDetail_short)

lemma failure_no_detail:
  assumes "textBody resp = Inr [] \<or> (\<exists>e. textBody resp = Inl e)"
  shows "failure base resp = Error base"
  using assms by (auto simp: failure_def fullMessage_def readDetail_def shortDetail_def)

lemma statusLine_not_Nil [simp]: "statusLine resp \<noteq> []"
  by (simp add: statusLine_def)

lemma failure_app_long:
  assumes "textBody resp = Inr d" and "300 < length d"
  shows "failure_app resp = Error (statusLine resp @ lit '' Details: '' @ take 300 d @ ellipsis)"
proof -
  from assms have "shortDetail 300 (readDetail resp) = take 300 d @ ellipsis"
    by (simp add: readDetail_def shortDetail_long)
  then show ?thesis
    by (simp add: failure_app_def Let_def ellipsis_def lit_def)
qed

lemma failure_app_short:
  assumes "textBody resp = Inr d" and "d \<noteq> []" and "length d \<le> 300"
  shows "failure_app resp = Error (statusLine resp @ lit '' Details: '' @ d)"
proof -
  from assms have "shortDetail 300 (readDetail resp) = d"
    by (simp add: readDetail_def shortDetail_short)
  with assms(2) show ?thesis
    by (simp add: failure_app_def Let_def lit_def)
qed

lemma failure_app_no_detail:
  assumes "textBody resp = Inr [] \<or> (\<exists>e. textBody resp = Inl e)"
  shows "failure_app resp = Error (statusLine resp)"
proof -
  from assms have "shortDetail 300 (readDetail resp) = []"
    by (auto simp: readDetail_def)
  then show ?thesis
    by (simp add: failure_app_def Let_def)
qed

lemma not_sublist_longer: "length ys < length xs \<Longrightarrow> \<not> sublist xs ys"
  by (auto simp: sublist_def)

lemma callStyleGeneration_refused:
  assumes "fetch ev (styleRequest k p) = Inr resp" and "\<not> ok resp"
  shows "callStyleGeneration ev k p = ([styleRequest k p], Inl (failure styleBaseMessage resp))"
  using assms by (simp add: callStyleGeneration_def Let_def)

lemma callQualityImprovement_refused:
  assumes "fetch ev (qualityRequest k f) = Inr resp" and "\<not> ok resp"
  shows "callQualityImprovement ev k (Some f)
           = ([qualityRequest k f], Inl (failure qualityBaseMessage resp))"
  using assms by (simp add: callQualityImprovement_def Let_def)

lemma callBackgroundRemoval_refused:
  assumes "fileToBase64 (readAsDataURL ev f) = Inr b64"
    and "fetch ev (backgroundRequest k b64) = Inr resp" and "\<not> ok resp"
  shows "callBackgroundRemoval ev k (Some f)
           = ([backgroundRequest k b64], Inl (failure backgroundBaseMessage resp))"
  using assms by (simp add: callBackgroundRemoval_def Let_def)

lemma generateImage_app_refused:
  assumes "fetch ev (generateRequest k p) = Inr resp" and "\<not> ok resp"
  shows "generateImage_app ev k p = ([generateRequest k p], Inl (failure_app resp))"
  using assms by (simp add: generateImage_app_def Let_def)

lemma generateImage_altPrompt_refused:
  assumes "fetch ev (generateRequest k p) = Inr resp" and "\<not> ok resp"
  shows "generateImage_altPrompt ev k p
           = ([generateRequest k p], Inl (failure generationBaseMessage resp))"
  using assms by (simp add: generateImage_altPrompt_def Let_def)

lemma fetch_server [simp]: "fetch (server resp) req = Inr resp"
  by (simp add: server_def)

lemma engine_server [simp]: "engine (server resp) = exampleRuntime"
  by (simp add: server_def)

lemma refusal_fields [simp]:
  "ok (refusal d) = False" "textBody (refusal d) = Inr d" "status (refusal d) = 503"
  "statusText (refusal d) = lit ''Service Unavailable''"
  by (simp_all add: refusal_def)

lemma decimal_503: "decimal 503 = lit ''503''"
  by (simp add: decimal.simps [of 503] decimal.simps [of 50] decimal.simps [of 5] lit_def)

lemma statusLine_refusal:
  "statusLine (refusal d) = lit ''HF Inference error: 503 Service Unavailable.''"
  by (simp add: statusLine_def decimal_503 lit_append [symmetric])

text \<open>
  Claim C6, as amended. For a response that is not ok, the thrown message is the base
  sentence, followed when the body is longer than the bound (160, or 300 in src/app.js)
  by \<open>Details:\<close>, the first bound characters of the body and the ellipsis; the
  detail then has exactly bound + 1 characters, so a body longer than the base sentence
  and 171 (or 311) characters is not contained in the message. A non-empty body within
  the bound is included whole; an empty body, or a body that cannot be read, leaves the
  base sentence alone. The base sentence is fixed per call in the three-model variant
  and in the third variant, and is the status line in src/app.js.
\<close>

theorem failure_message_shape:
  fixes base d k p b64 :: jsstring and resp :: response and ev :: env and f :: jsfile
  shows
  "(textBody resp = Inr d \<and> 160 < length d \<longrightarrow>
       failure base resp = Error (base @ lit '' Details: '' @ take 160 d @ ellipsis)
       \<and> length (take 160 d @ ellipsis) = 161
       \<and> (length base + 171 < length d \<longrightarrow>
            \<not> sublist d (base @ lit '' Details: '' @ take 160 d @ ellipsis)))
   \<and> (textBody resp = Inr d \<and> d \<noteq> [] \<and> length d \<le> 160 \<longrightarrow>
         failure base resp = Error (base @ lit '' Details: '' @ d))
   \<and> (textBody resp = Inr [] \<or> (\<exists>e. textBody resp = Inl e) \<longrightarrow>
         failure base resp = Error base)
   \<and> (textBody resp = Inr d \<and> 300 < length d \<longrightarrow>
         failure_app resp = Error (statusLine resp @ lit '' Details: '' @ take 300 d @ ellipsis)
         \<and> length (take 300 d @ ellipsis) = 301
         \<and> (length (statusLine resp) + 311 < length d \<longrightarrow>
              \<not> sublist d (statusLine resp @ lit '' Details: '' @ take 300 d @ ellipsis)))
   \<and> (textBody resp = Inr d \<and> d \<noteq> [] \<and> length d \<le> 300 \<longrightarrow>
         failure_app resp = Error (statusLine resp @ lit '' Details: '' @ d))
   \<and> (textBody resp = Inr [] \<or> (\<exists>e. textBody resp = Inl e) \<longrightarrow>
         failure_app resp = Error (statusLine resp))
   \<and> (fetch ev (styleRequest k p) = Inr resp \<and> \<not> ok resp \<longrightarrow>
         callStyleGeneration ev k p = ([styleRequest k p], Inl (failure styleBaseMessage resp)))
   \<and> (fileToBase64 (readAsDataURL ev f) = Inr b64
         \<and> fetch ev (backgroundRequest k b64) = Inr resp \<and> \<not> ok resp \<longrightarrow>
         callBackgroundRemoval ev k (Some f)
           = ([backgroundRequest k b64], Inl (failure backgroundBaseMessage resp)))
   \<and> (fetch ev (qualityRequest k f) = Inr resp \<and> \<not> ok resp \<longrightarrow>
         callQualityImprovement ev k (Some f)
           = ([qualityRequest k f], Inl (failure qualityBaseMessage resp)))
   \<and> (fetch ev (generateRequest k p) = Inr resp \<and> \<not> ok resp \<longrightarrow>
         generateImage_app ev k p = ([generateRequest k p], Inl (failure_app resp))
         \<and> generateImage_altPrompt ev k p
             = ([generateRequest k p], Inl (failure generationBaseMessage resp)))"
proof (intro conjI impI)
  assume "textBody resp = Inr d \<and> 160 < length d"
  then show "failure base resp = Error (base @ lit '' Details: '' @ take 160 d @ ellipsis)"
    using failure_long by blast
next
  assume "textBody resp = Inr d \<and> 160 < length d"
  then show "length (take 160 d @ ellipsis) = 161" by simp
next
  assume "length base + 171 < length d"
  then show "\<not> sublist d (base @ lit '' Details: '' @ take 160 d @ ellipsis)"
    by (intro not_sublist_longer) simp
next
  assume "textBody resp = Inr d \<and> d \<noteq> [] \<and> length d \<le> 160"
  then show "failure base resp = Error (base @ lit '' Details: '' @ d)"
    using failure_short by blast
next
  assume "textBody resp = Inr [] \<or> (\<exists>e. textBody resp = Inl e)"
  then show "failure base resp = Error base" by (rule failure_no_detail)
next
  assume "textBody resp = Inr d \<and> 300 < length d"
  then show "failure_app resp = Error (statusLine resp @ lit '' Details: '' @ take 300 d @ ellipsis)"
    using failure_app_long by blast
next
  assume "textBody resp = Inr d \<and> 300 < length d"
  then show "length (take 300 d @ ellipsis) = 301" by simp
next
  assume "length (statusLine resp) + 311 < length d"
  then show "\<not> sublist d (statusLine resp @ lit '' Details: '' @ take 300 d @ ellipsis)"
    by (intro not_sublist_longer) simp
next
  assume "textBody resp = Inr d \<and> d \<noteq> [] \<and> length d \<le> 300"
  then show "failure_app resp = Error (statusLine resp @ lit '' Details: '' @ d)"
    using failure_app_short by blast
next
  assume "textBody resp = Inr [] \<or> (\<exists>e. textBody resp = Inl e)"
  then show "failure_app resp = Error (statusLine resp)" by (rule failure_app_no_detail)
next
  assume "fetch ev (styleRequest k p) = Inr resp \<and> \<not> ok resp"
  then show "callStyleGeneration ev k p = ([styleRequest k p], Inl (failure styleBaseMessage resp))"
    using callStyleGeneration_refused by blast
next
  assume "fileToBase64 (readAsDataURL ev f) = Inr b64
      \<and> fetch ev (backgroundRequest k b64) = Inr resp \<and> \<not> ok resp"
  then show "callBackgroundRemoval ev k (Some f)
      = ([backgroundRequest k b64], Inl (failure backgroundBaseMessage resp))"
    using callBackgroundRemoval_refused by blast
next
  assume "fetch ev (qualityRequest k f) = Inr resp \<and> \<not> ok resp"
  then show "callQualityImprovement ev k (Some f)
      = ([qualityRequest k f], Inl (failure qualityBaseMessage resp))"
    using callQualityImprovement_refused by blast
next
  assume "fetch ev (generateRequest k p) = Inr resp \<and> \<not> ok resp"
  then show "generateImage_app ev k p = ([generateRequest k p], Inl (failure_app resp))"
    using generateImage_app_refused by blast
next
  assume "fetch ev (generateRequest k p) = Inr resp \<and> \<not> ok resp"
  then show "generateImage_altPrompt ev k p
      = ([generateRequest k p], Inl (failure generationBaseMessage resp))"
    using generateImage_altPrompt_refused by blast
qed

text \<open>
  A body of 500 characters: the style call reports 160 of them and the ellipsis, and
  the body is no part of the message; a short body; an empty one; the same for
  src/app.js with its bound of 300.
\<close>

theorem failure_message_shape_witness:
  "callStyleGeneration (server (refusal (replicate 500 0x78))) (lit ''hf_key'') (lit ''Pizza'')
     = ([styleRequest (lit ''hf_key'') (lit ''Pizza'')],
        Inl (Error (styleBaseMessage @ lit '' Details: '' @ replicate 160 0x78 @ ellipsis)))
   \<and> \<not> sublist (replicate 500 0x78)
          (styleBaseMessage @ lit '' Details: '' @ replicate 160 0x78 @ ellipsis)
   \<and> failure styleBaseMessage (refusal (lit ''Model is loading''))
       = Error (styleBaseMessage @ lit '' Details: Model is loading'')
   \<and> failure styleBaseMessage (refusal []) = Error styleBaseMessage
   \<and> failure_app (refusal (replicate 500 0x78))
       = Error (lit ''HF Inference error: 503 Service Unavailable. Details: ''
                  @ replicate 300 0x78 @ ellipsis)
   \<and> failure_app (refusal []) = Error (lit ''HF Inference error: 503 Service Unavailable.'')"
proof -
  let ?d = "replicate 500 (0x78 :: jschar)"
  let ?m = "lit ''Model is loading''"
  have len: "length styleBaseMessage + 171 < length ?d" by (simp add: styleBaseMessage_def)
  note long = failure_message_shape [where resp = "refusal ?d" and d = ?d
      and base = styleBaseMessage and ev = "server (refusal ?d)" and k = "lit ''hf_key''"
      and p = "lit ''Pizza''"]
  note short = failure_message_shape [where resp = "refusal ?m" and d = ?m
      and base = styleBaseMessage]
  note none = failure_message_shape [where resp = "refusal []" and base = styleBaseMessage]
  from long len have c1:
    "callStyleGeneration (server (refusal ?d)) (lit ''hf_key'') (lit ''Pizza'')
       = ([styleRequest (lit ''hf_key'') (lit ''Pizza'')],
          Inl (Error (styleBaseMessage @ lit '' Details: '' @ replicate 160 0x78 @ ellipsis)))"
    and c2: "\<not> sublist ?d (styleBaseMessage @ lit '' Details: '' @ replicate 160 0x78 @ ellipsis)"
    and c5: "failure_app (refusal ?d)
       = Error (lit ''HF Inference error: 503 Service Unavailable. Details: ''
                  @ replicate 300 0x78 @ ellipsis)"
    by (simp_all add: statusLine_refusal lit_append [symmetric])
  from short have c3: "failure styleBaseMessage (refusal ?m)
       = Error (styleBaseMessage @ lit '' Details: Model is loading'')"
    by (simp add: lit_append [symmetric])
  from none have c4: "failure styleBaseMessage (refusal []) = Error styleBaseMessage"
    and c6: "failure_app (refusal []) = Error (lit ''HF Inference error: 503 Service Unavailable.'')"
    by (simp_all add: statusLine_refusal)
  from c1 c2 c3 c4 c5 c6 show ?thesis by simp
qed

text \<open>
  Claim C6 as stated fails: a body of 161 characters whose last character is the
  ellipsis is longer than the bound, and the message holds it in full.
\<close>

theorem full_body_in_message_counterexample:
  "160 < length (replicate 160 (0x61 :: jschar) @ ellipsis)
   \<and> callStyleGeneration (server (refusal (replicate 160 0x61 @ ellipsis)))
        (lit ''hf_key'') (lit ''Pizza'')
      = ([styleRequest (lit ''hf_key'') (lit ''Pizza'')],
         Inl (Error (styleBaseMessage @ lit '' Details: '' @ (replicate 160 0x61 @ ellipsis))))"
proof -
  let ?d = "replicate 160 (0x61 :: jschar) @ ellipsis"
  have "failure styleBaseMessage (refusal ?d)
      = Error (styleBaseMessage @ lit '' Details: '' @ take 160 ?d @ ellipsis)"
    by (rule failure_long) simp_all
  then show ?thesis
    by (simp add: callStyleGeneration_refused)
qed

section \<open>The handlers\<close>

lemma buildPrompt_unknown:
  assumes "editType \<noteq> lit ''Background cleaning''" and "editType \<noteq> lit ''Quality improvement''"
  shows "buildPrompt food editType = buildPrompt food (lit ''Style'')"
  using assms by (simp add: buildPrompt_def)

lemma handle_missing_key:
  assumes "trim (apiKeyValue inp) = []"
  shows "handleGenerateClick ev inp = \<lparr>requests = [], outputArea = ErrorText missingKeyMessage\<rparr>"
    and "handleGenerateClick_app ev inp = \<lparr>requests = [], outputArea = ErrorText missingKeyMessage\<rparr>"
    and "handleGenerateClick_altPrompt ev inp
           = \<lparr>requests = [], outputArea = ErrorText missingKeyMessage\<rparr>"
  using assms
  by (simp_all add: handleGenerateClick_def handleGenerateClick_app_def
      handleGenerateClick_altPrompt_def)

lemma handle_missing_photo:
  assumes "trim (apiKeyValue inp) \<noteq> []"
    and "editValue inp = lit ''Background cleaning'' \<or> editValue inp = lit ''Quality improvement''"
    and "photoFile inp = None"
  shows "handleGenerateClick ev inp
           = \<lparr>requests = [], outputArea = ErrorText (missingPhotoMessage (editValue inp))\<rparr>"
  using assms by (auto simp: handleGenerateClick_def)

lemma handle_style:
  assumes "trim (apiKeyValue inp) \<noteq> []" and "editValue inp = lit ''Style''"
  shows "handleGenerateClick ev inp =
           \<lparr>requests = [styleRequest (trim (apiKeyValue inp)) (buildPrompt (foodValue inp) (lit ''Style''))],
            outputArea =
              (case snd (callStyleGeneration ev (trim (apiKeyValue inp))
                           (buildPrompt (foodValue inp) (lit ''Style''))) of
                 Inl e \<Rightarrow> ErrorText processingFailedMessage
               | Inr imageBlob \<Rightarrow>
                   ImageFromBlob imageBlob
                     (lit ''Styled food image for '' @ foodValue inp
                        @ lit '' using SDXL based on prompt: ''
                        @ buildPrompt (foodValue inp) (lit ''Style'')))\<rparr>"
  using assms by (simp add: handleGenerateClick_def Let_def callStyleGeneration_def)

lemma handle_fallback:
  assumes "trim (apiKeyValue inp) \<noteq> []" and "editValue inp \<noteq> lit ''Style''"
    and "editValue inp \<noteq> lit ''Background cleaning''"
    and "editValue inp \<noteq> lit ''Quality improvement''"
  shows "handleGenerateClick ev inp =
           \<lparr>requests = [styleRequest (trim (apiKeyValue inp)) (buildPrompt (foodValue inp) (lit ''Style''))],
            outputArea =
              (case snd (callStyleGeneration ev (trim (apiKeyValue inp))
                           (buildPrompt (foodValue inp) (lit ''Style''))) of
                 Inl e \<Rightarrow> ErrorText processingFailedMessage
               | Inr fallbackBlob \<Rightarrow>
                   ImageFromBlob fallbackBlob
                     (lit ''Generated food image for '' @ foodValue inp
                        @ lit '' (fallback style mode)''))\<rparr>"
  using assms buildPrompt_unknown [of "editValue inp" "foodValue inp"]
  by (simp add: handleGenerateClick_def Let_def callStyleGeneration_def)

lemma handle_background:
  assumes "trim (apiKeyValue inp) \<noteq> []" and "editValue inp = lit ''Background cleaning''"
    and "photoFile inp = Some f"
  shows "handleGenerateClick ev inp =
           \<lparr>requests = fst (callBackgroundRemoval ev (trim (apiKeyValue inp)) (Some f)),
            outputArea =
              (case snd (callBackgroundRemoval ev (trim (apiKeyValue inp)) (Some f)) of
                 Inl e \<Rightarrow> ErrorText processingFailedMessage
               | Inr maskDataUrl \<Rightarrow>
                   ImageFromDataUrl maskDataUrl
                     (lit ''Background mask for '' @ foodValue inp
                        @ lit '' created with RMBG-2.0''))\<rparr>"
  using assms by (simp add: handleGenerateClick_def Let_def split: prod.splits)

lemma handle_quality:
  assumes "trim (apiKeyValue inp) \<noteq> []" and "editValue inp = lit ''Quality improvement''"
    and "photoFile inp = Some f"
  shows "handleGenerateClick ev inp =
           \<lparr>requests = [qualityRequest (trim (apiKeyValue inp)) f],
            outputArea =
              (case snd (callQualityImprovement ev (trim (apiKeyValue inp)) (Some f)) of
                 Inl e \<Rightarrow> ErrorText processingFailedMessage
               | Inr upscaledBlob \<Rightarrow>
                   ImageFromBlob upscaledBlob
                     (lit ''Quality-improved '' @ foodValue inp
                        @ lit '' photo upscaled by Real-ESRGAN''))\<rparr>"
  using assms by (simp add: handleGenerateClick_def Let_def callQualityImprovement_def)

lemma callBackgroundRemoval_read:
  assumes "fileToBase64 (readAsDataURL ev f) = Inr b64"
  shows "callBackgroundRemoval ev k (Some f) =
           ([backgroundRequest k b64],
            case fetch ev (backgroundRequest k b64) of
              Inl e \<Rightarrow> Inl e
            | Inr resp \<Rightarrow>
                if \<not> ok resp then Inl (failure backgroundBaseMessage resp)
                else (case jsonBody resp of
                        Inl e \<Rightarrow> Inl e
                      | Inr parsed \<Rightarrow> decodeMask (engine ev) parsed))"
  using assms by (simp add: callBackgroundRemoval_def Let_def)

lemma endpoints_distinct:
  "distinct [HF_ENDPOINTS_style, HF_ENDPOINTS_background, HF_ENDPOINTS_quality]"
  by (simp add: HF_ENDPOINTS_style_def HF_ENDPOINTS_background_def HF_ENDPOINTS_quality_def)

lemma request_urls [simp]:
  "url (styleRequest k p) = HF_ENDPOINTS_style"
  "url (backgroundRequest k b64) = HF_ENDPOINTS_background"
  "url (qualityRequest k f) = HF_ENDPOINTS_quality"
  "url (generateRequest k p) = HF_ENDPOINT"
  by (simp_all add: styleRequest_def backgroundRequest_def qualityRequest_def generateRequest_def)

lemma click_fields [simp]:
  "apiKeyValue (click key mode photo) = lit key" "foodValue (click key mode photo) = lit ''Pizza''"
  "editValue (click key mode photo) = lit mode" "photoFile (click key mode photo) = photo"
  "(click key mode photo)\<lparr>photoFile := q\<rparr> = click key mode q"
  "(click key mode photo)\<lparr>editValue := lit m\<rparr> = click key m photo"
  by (simp_all add: click_def)

lemma trim_examples [simp]:
  "trim (lit '' hf_key '') = lit ''hf_key''" "trim (lit ''   '') = []"
  by (simp_all add: trim_def lit_def isWhiteSpace_def)

lemma imageResponse_fields [simp]:
  "ok imageResponse" "blobBody imageResponse = Inr [0x89, 0x50, 0x4E, 0x47, 0x0D, 0x0A]"
  by (simp_all add: imageResponse_def)

lemma segmentsResponse_fields [simp]:
  "ok segmentsResponse"
  "jsonBody segmentsResponse
     = Inr (JArr [segment 20 ''AAAA'', segment 91 ''BBBB'', segment 50 ''CCCC''])"
  by (simp_all add: segmentsResponse_def)

lemma decodeMask_three_segments:
  "decodeMask rt (JArr [segment 20 ''AAAA'', segment 91 ''BBBB'', segment 50 ''CCCC''])
     = Inr (lit ''data:image/png;base64,BBBB'')"
proof -
  have "selectBest rt [segment 20 ''AAAA'', segment 91 ''BBBB'', segment 50 ''CCCC'']
      = Inr (segment 91 ''BBBB'')"
    by (rule selectBest_three_segments)
  then show ?thesis
    by (simp add: decodeMask_def segment_def lit_append [symmetric])
qed

lemma read_pizzaPhoto [simp]:
  "fileToBase64 (readAsDataURL (server resp) pizzaPhoto) = Inr (lit ''iVBORw=='')"
proof -
  have "comma \<notin> set (lit ''image/png'')" by (rule comma_not_in_lit) simp
  then show ?thesis
    by (simp add: server_def browserRead_def pizzaPhoto_def fileToBase64_dataUrl base64_png
        del: base64.simps)
qed

lemma handle_app_requests:
  assumes "trim (apiKeyValue inp) \<noteq> []"
  shows "requests (handleGenerateClick_app ev inp)
           = [generateRequest (trim (apiKeyValue inp)) (buildPrompt (foodValue inp) (editValue inp))]"
    and "requests (handleGenerateClick_altPrompt ev inp)
           = [generateRequest (trim (apiKeyValue inp))
                (buildPrompt_altPrompt (engine ev) (foodValue inp) (editValue inp))]"
  using assms
  by (simp_all add: handleGenerateClick_app_def handleGenerateClick_altPrompt_def Let_def
      generateImage_app_def generateImage_altPrompt_def)

text \<open>
  Claim C3, as amended. With an empty trimmed key, each of the three handlers shows the
  missing-key message and issues no request. In the three-model handler, the modes
  Background cleaning and Quality improvement without a photo show a validation message
  and issue no request, while Style without a photo issues the style request and, on an
  image response, shows the image. The two single-endpoint handlers check the key only:
  with a key they issue their one request in every mode, with or without a photo.
\<close>

theorem validation_before_network:
  fixes ev :: env and inp :: inputs and resp :: response and b :: bytes
  shows
  "(trim (apiKeyValue inp) = [] \<longrightarrow>
      handleGenerateClick ev inp = \<lparr>requests = [], outputArea = ErrorText missingKeyMessage\<rparr>
      \<and> handleGenerateClick_app ev inp
          = \<lparr>requests = [], outputArea = ErrorText missingKeyMessage\<rparr>
      \<and> handleGenerateClick_altPrompt ev inp
          = \<lparr>requests = [], outputArea = ErrorText missingKeyMessage\<rparr>)
   \<and> ((editValue inp = lit ''Background cleaning'' \<or> editValue inp = lit ''Quality improvement'')
        \<and> photoFile inp = None \<longrightarrow>
        requests (handleGenerateClick ev inp) = []
        \<and> (outputArea (handleGenerateClick ev inp) = ErrorText missingKeyMessage
            \<or> outputArea (handleGenerateClick ev inp)
                = ErrorText (missingPhotoMessage (editValue inp))))
   \<and> (trim (apiKeyValue inp) \<noteq> []
        \<and> (editValue inp = lit ''Background cleaning'' \<or> editValue inp = lit ''Quality improvement'')
        \<and> photoFile inp = None \<longrightarrow>
        handleGenerateClick ev inp
          = \<lparr>requests = [], outputArea = ErrorText (missingPhotoMessage (editValue inp))\<rparr>)
   \<and> (trim (apiKeyValue inp) \<noteq> [] \<and> editValue inp = lit ''Style'' \<and> photoFile inp = None \<longrightarrow>
        requests (handleGenerateClick ev inp)
          = [styleRequest (trim (apiKeyValue inp)) (buildPrompt (foodValue inp) (lit ''Style''))]
        \<and> (fetch ev (styleRequest (trim (apiKeyValue inp))
                       (buildPrompt (foodValue inp) (lit ''Style''))) = Inr resp
            \<and> ok resp \<and> blobBody resp = Inr b \<longrightarrow>
            outputArea (handleGenerateClick ev inp)
              = ImageFromBlob b
                  (lit ''Styled food image for '' @ foodValue inp
                     @ lit '' using SDXL based on prompt: ''
                     @ buildPrompt (foodValue inp) (lit ''Style''))))
   \<and> (trim (apiKeyValue inp) \<noteq> [] \<longrightarrow>
        requests (handleGenerateClick_app ev inp)
          = [generateRequest (trim (apiKeyValue inp))
               (buildPrompt (foodValue inp) (editValue inp))]
        \<and> requests (handleGenerateClick_altPrompt ev inp)
            = [generateRequest (trim (apiKeyValue inp))
                 (buildPrompt_altPrompt (engine ev) (foodValue inp) (editValue inp))])"
proof (intro conjI impI)
  assume "trim (apiKeyValue inp) \<noteq> []"
  then show "requests (handleGenerateClick_app ev inp)
      = [generateRequest (trim (apiKeyValue inp)) (buildPrompt (foodValue inp) (editValue inp))]"
    and "requests (handleGenerateClick_altPrompt ev inp)
      = [generateRequest (trim (apiKeyValue inp))
           (buildPrompt_altPrompt (engine ev) (foodValue inp) (editValue inp))]"
    by (rule handle_app_requests)+
next
  assume "trim (apiKeyValue inp) = []"
  then show "handleGenerateClick ev inp = \<lparr>requests = [], outputArea = ErrorText missingKeyMessage\<rparr>"
    and "handleGenerateClick_app ev inp = \<lparr>requests = [], outputArea = ErrorText missingKeyMessage\<rparr>"
    and "handleGenerateClick_altPrompt ev inp
          = \<lparr>requests = [], outputArea = ErrorText missingKeyMessage\<rparr>"
    by (rule handle_missing_key)+
next
  assume h: "(editValue inp = lit ''Background cleaning'' \<or> editValue inp = lit ''Quality improvement'')
      \<and> photoFile inp = None"
  show "requests (handleGenerateClick ev inp) = []"
  proof (cases "trim (apiKeyValue inp) = []")
    case True
    then show ?thesis by (simp add: handle_missing_key)
  next
    case False
    with h show ?thesis by (simp add: handle_missing_photo)
  qed
  show "outputArea (handleGenerateClick ev inp) = ErrorText missingKeyMessage
      \<or> outputArea (handleGenerateClick ev inp) = ErrorText (missingPhotoMessage (editValue inp))"
  proof (cases "trim (apiKeyValue inp) = []")
    case True
    then show ?thesis by (simp add: handle_missing_key)
  next
    case False
    with h show ?thesis by (simp add: handle_missing_photo)
  qed
next
  assume "trim (apiKeyValue inp) \<noteq> []
      \<and> (editValue inp = lit ''Background cleaning'' \<or> editValue inp = lit ''Quality improvement'')
      \<and> photoFile inp = None"
  then show "handleGenerateClick ev inp
      = \<lparr>requests = [], outputArea = ErrorText (missingPhotoMessage (editValue inp))\<rparr>"
    by (simp add: handle_missing_photo)
next
  assume "trim (apiKeyValue inp) \<noteq> [] \<and> editValue inp = lit ''Style'' \<and> photoFile inp = None"
  then show "requests (handleGenerateClick ev inp)
      = [styleRequest (trim (apiKeyValue inp)) (buildPrompt (foodValue inp) (lit ''Style''))]"
    by (simp add: handle_style)
next
  assume "trim (apiKeyValue inp) \<noteq> [] \<and> editValue inp = lit ''Style'' \<and> photoFile inp = None"
    and "fetch ev (styleRequest (trim (apiKeyValue inp))
                     (buildPrompt (foodValue inp) (lit ''Style''))) = Inr resp
         \<and> ok resp \<and> blobBody resp = Inr b"
  then show "outputArea (handleGenerateClick ev inp)
      = ImageFromBlob b
          (lit ''Styled food image for '' @ foodValue inp
             @ lit '' using SDXL based on prompt: ''
             @ buildPrompt (foodValue inp) (lit ''Style''))"
    by (simp add: handle_style callStyleGeneration_def Let_def)
qed

text \<open>
  A key of blanks; the two photo modes without a photo; Style without a photo against a
  server that answers with an image.
\<close>

theorem validation_before_network_witness:
  "handleGenerateClick (server imageResponse) (click ''   '' ''Style'' (Some pizzaPhoto))
     = \<lparr>requests = [], outputArea = ErrorText missingKeyMessage\<rparr>
   \<and> handleGenerateClick_app (server imageResponse) (click ''   '' ''Style'' (Some pizzaPhoto))
       = \<lparr>requests = [], outputArea = ErrorText missingKeyMessage\<rparr>
   \<and> handleGenerateClick_altPrompt (server imageResponse) (click ''   '' ''Style'' (Some pizzaPhoto))
       = \<lparr>requests = [], outputArea = ErrorText missingKeyMessage\<rparr>
   \<and> handleGenerateClick (server segmentsResponse) (click '' hf_key '' ''Background cleaning'' None)
       = \<lparr>requests = [],
          outputArea = ErrorText (missingPhotoMessage (lit ''Background cleaning''))\<rparr>
   \<and> handleGenerateClick (server imageResponse) (click '' hf_key '' ''Quality improvement'' None)
       = \<lparr>requests = [],
          outputArea = ErrorText (missingPhotoMessage (lit ''Quality improvement''))\<rparr>
   \<and> requests (handleGenerateClick (server imageResponse) (click '' hf_key '' ''Style'' None))
       = [styleRequest (lit ''hf_key'') (buildPrompt (lit ''Pizza'') (lit ''Style''))]
   \<and> outputArea (handleGenerateClick (server imageResponse) (click '' hf_key '' ''Style'' None))
       = ImageFromBlob [0x89, 0x50, 0x4E, 0x47, 0x0D, 0x0A]
           (lit ''Styled food image for '' @ lit ''Pizza'' @ lit '' using SDXL based on prompt: ''
              @ buildPrompt (lit ''Pizza'') (lit ''Style''))
   \<and> requests (handleGenerateClick_altPrompt (server imageResponse)
                  (click '' hf_key '' ''Quality improvement'' None))
       = [generateRequest (lit ''hf_key'')
            (buildPrompt_altPrompt exampleRuntime (lit ''Pizza'') (lit ''Quality improvement''))]"
proof -
  note blank = validation_before_network [where ev = "server imageResponse"
      and inp = "click ''   '' ''Style'' (Some pizzaPhoto)"]
  note bc = validation_before_network [where ev = "server segmentsResponse"
      and inp = "click '' hf_key '' ''Background cleaning'' None"]
  note qi = validation_before_network [where ev = "server imageResponse"
      and inp = "click '' hf_key '' ''Quality improvement'' None"]
  note style = validation_before_network [where ev = "server imageResponse"
      and inp = "click '' hf_key '' ''Style'' None" and resp = imageResponse
      and b = "[0x89, 0x50, 0x4E, 0x47, 0x0D, 0x0A]"]
  from blank have c1:
    "handleGenerateClick (server imageResponse) (click ''   '' ''Style'' (Some pizzaPhoto))
       = \<lparr>requests = [], outputArea = ErrorText missingKeyMessage\<rparr>"
    "handleGenerateClick_app (server imageResponse) (click ''   '' ''Style'' (Some pizzaPhoto))
       = \<lparr>requests = [], outputArea = ErrorText missingKeyMessage\<rparr>"
    "handleGenerateClick_altPrompt (server imageResponse) (click ''   '' ''Style'' (Some pizzaPhoto))
       = \<lparr>requests = [], outputArea = ErrorText missingKeyMessage\<rparr>"
    by simp_all
  from bc have c2:
    "handleGenerateClick (server segmentsResponse) (click '' hf_key '' ''Background cleaning'' None)
       = \<lparr>requests = [],
          outputArea = ErrorText (missingPhotoMessage (lit ''Background cleaning''))\<rparr>"
    by simp
  from qi have c3:
    "handleGenerateClick (server imageResponse) (click '' hf_key '' ''Quality improvement'' None)
       = \<lparr>requests = [],
          outputArea = ErrorText (missingPhotoMessage (lit ''Quality improvement''))\<rparr>"
    by simp
  from style have c4:
    "requests (handleGenerateClick (server imageResponse) (click '' hf_key '' ''Style'' None))
       = [styleRequest (lit ''hf_key'') (buildPrompt (lit ''Pizza'') (lit ''Style''))]"
    "outputArea (handleGenerateClick (server imageResponse) (click '' hf_key '' ''Style'' None))
       = ImageFromBlob [0x89, 0x50, 0x4E, 0x47, 0x0D, 0x0A]
           (lit ''Styled food image for '' @ lit ''Pizza'' @ lit '' using SDXL based on prompt: ''
              @ buildPrompt (lit ''Pizza'') (lit ''Style''))"
    by simp_all
  from qi have c5:
    "requests (handleGenerateClick_altPrompt (server imageResponse)
                  (click '' hf_key '' ''Quality improvement'' None))
       = [generateRequest (lit ''hf_key'')
            (buildPrompt_altPrompt exampleRuntime (lit ''Pizza'') (lit ''Quality improvement''))]"
    by simp
  from c1 c2 c3 c4 c5 show ?thesis by simp
qed

text \<open>
  Claim C3 as stated fails on the handler of src/app.js: with a key, the mode Background
  cleaning and no photo, it issues its request and shows the image that comes back.
\<close>

theorem photo_not_checked_counterexample:
  "photoFile (click '' hf_key '' ''Background cleaning'' None) = None
   \<and> handleGenerateClick_app (server imageResponse)
         (click '' hf_key '' ''Background cleaning'' None)
       = \<lparr>requests = [generateRequest (lit ''hf_key'')
                          (buildPrompt (lit ''Pizza'') (lit ''Background cleaning''))],
          outputArea = ImageFromBlob [0x89, 0x50, 0x4E, 0x47, 0x0D, 0x0A]
            (lit ''Generated '' @ lit ''Pizza'' @ lit '' image ('' @ lit ''Background cleaning''
               @ lit '') with SDXL. Prompt: ''
               @ buildPrompt (lit ''Pizza'') (lit ''Background cleaning''))\<rparr>"
  by (simp add: handleGenerateClick_app_def Let_def generateImage_app_def)

text \<open>
  Claim C2, as amended. With a key, the three-model handler sends the one request of each
  mode to that mode's endpoint, and the three endpoints differ. An ok response is read as
  a blob and shown as an image for Style and for Quality improvement; for Background
  cleaning it is parsed as JSON and decoded to the data URL of the selected mask. Whatever
  the mode, a click with a readable photo issues exactly one request, to one of the three
  endpoints. The handlers of src/app.js and of the third variant do not dispatch: with a
  key, every mode sends its one request to \<open>HF_ENDPOINT\<close>, which is the Style endpoint
  of the three-model variant, and an ok response is read as a blob and shown as an image
  in every mode.
\<close>

theorem dispatch_by_mode:
  fixes ev :: env and inp :: inputs and resp :: response and f :: jsfile
    and b64 :: jsstring and k :: jsstring and p :: jsstring
  assumes "trim (apiKeyValue inp) \<noteq> []"
  shows
  "distinct [HF_ENDPOINTS_style, HF_ENDPOINTS_background, HF_ENDPOINTS_quality]
   \<and> (editValue inp = lit ''Style'' \<longrightarrow>
        requests (handleGenerateClick ev inp)
          = [styleRequest (trim (apiKeyValue inp)) (buildPrompt (foodValue inp) (lit ''Style''))]
        \<and> url (styleRequest (trim (apiKeyValue inp)) (buildPrompt (foodValue inp) (lit ''Style'')))
            = HF_ENDPOINTS_style
        \<and> (fetch ev (styleRequest (trim (apiKeyValue inp))
                       (buildPrompt (foodValue inp) (lit ''Style''))) = Inr resp \<and> ok resp \<longrightarrow>
            outputArea (handleGenerateClick ev inp)
              = (case blobBody resp of
                   Inl e \<Rightarrow> ErrorText processingFailedMessage
                 | Inr imageBlob \<Rightarrow>
                     ImageFromBlob imageBlob
                       (lit ''Styled food image for '' @ foodValue inp
                          @ lit '' using SDXL based on prompt: ''
                          @ buildPrompt (foodValue inp) (lit ''Style'')))))
   \<and> (editValue inp = lit ''Background cleaning'' \<and> photoFile inp = Some f
        \<and> fileToBase64 (readAsDataURL ev f) = Inr b64 \<longrightarrow>
        requests (handleGenerateClick ev inp) = [backgroundRequest (trim (apiKeyValue inp)) b64]
        \<and> url (backgroundRequest (trim (apiKeyValue inp)) b64) = HF_ENDPOINTS_background
        \<and> (fetch ev (backgroundRequest (trim (apiKeyValue inp)) b64) = Inr resp \<and> ok resp \<longrightarrow>
            outputArea (handleGenerateClick ev inp)
              = (case jsonBody resp of
                   Inl e \<Rightarrow> ErrorText processingFailedMessage
                 | Inr parsed \<Rightarrow>
                     (case decodeMask (engine ev) parsed of
                        Inl e \<Rightarrow> ErrorText processingFailedMessage
                      | Inr maskDataUrl \<Rightarrow>
                          ImageFromDataUrl maskDataUrl
                            (lit ''Background mask for '' @ foodValue inp
                               @ lit '' created with RMBG-2.0'')))))
   \<and> (editValue inp = lit ''Quality improvement'' \<and> photoFile inp = Some f \<longrightarrow>
        requests (handleGenerateClick ev inp) = [qualityRequest (trim (apiKeyValue inp)) f]
        \<and> url (qualityRequest (trim (apiKeyValue inp)) f) = HF_ENDPOINTS_quality
        \<and> (fetch ev (qualityRequest (trim (apiKeyValue inp)) f) = Inr resp \<and> ok resp \<longrightarrow>
            outputArea (handleGenerateClick ev inp)
              = (case blobBody resp of
                   Inl e \<Rightarrow> ErrorText processingFailedMessage
                 | Inr upscaledBlob \<Rightarrow>
                     ImageFromBlob upscaledBlob
                       (lit ''Quality-improved '' @ foodValue inp
                          @ lit '' photo upscaled by Real-ESRGAN''))))
   \<and> (photoFile inp = Some f \<and> fileToBase64 (readAsDataURL ev f) = Inr b64 \<longrightarrow>
        (\<exists>r. requests (handleGenerateClick ev inp) = [r]
           \<and> url r \<in> set [HF_ENDPOINTS_style, HF_ENDPOINTS_background, HF_ENDPOINTS_quality]))
   \<and> HF_ENDPOINT = HF_ENDPOINTS_style
   \<and> requests (handleGenerateClick_app ev inp)
       = [generateRequest (trim (apiKeyValue inp)) (buildPrompt (foodValue inp) (editValue inp))]
   \<and> requests (handleGenerateClick_altPrompt ev inp)
       = [generateRequest (trim (apiKeyValue inp))
            (buildPrompt_altPrompt (engine ev) (foodValue inp) (editValue inp))]
   \<and> url (generateRequest k p) = HF_ENDPOINT
   \<and> (fetch ev (generateRequest (trim (apiKeyValue inp))
                   (buildPrompt (foodValue inp) (editValue inp))) = Inr resp \<and> ok resp \<longrightarrow>
        outputArea (handleGenerateClick_app ev inp)
          = (case blobBody resp of
               Inl err \<Rightarrow>
                 ErrorText
                   (if messageOf (engine ev) err \<noteq> [] then messageOf (engine ev) err
                    else lit ''Something went wrong while generating the image.'')
             | Inr imageBlob \<Rightarrow>
                 ImageFromBlob imageBlob
                   (lit ''Generated '' @ foodValue inp @ lit '' image ('' @ editValue inp
                      @ lit '') with SDXL. Prompt: ''
                      @ buildPrompt (foodValue inp) (editValue inp))))
   \<and> (fetch ev (generateRequest (trim (apiKeyValue inp))
                   (buildPrompt_altPrompt (engine ev) (foodValue inp) (editValue inp)))
          = Inr resp \<and> ok resp \<longrightarrow>
        outputArea (handleGenerateClick_altPrompt ev inp)
          = (case blobBody resp of
               Inl e \<Rightarrow>
                 ErrorText
                   (lit ''Something went wrong while generating the image. Please check your API key, model access, and try again.'')
             | Inr imageBlob \<Rightarrow>
                 ImageFromBlob imageBlob
                   (lit ''Generated food image based on prompt: ''
                      @ buildPrompt_altPrompt (engine ev) (foodValue inp) (editValue inp))))"
proof (intro conjI impI)
  show "distinct [HF_ENDPOINTS_style, HF_ENDPOINTS_background, HF_ENDPOINTS_quality]"
    by (rule endpoints_distinct)
next
  assume "editValue inp = lit ''Style''"
  with assms show "requests (handleGenerateClick ev inp)
      = [styleRequest (trim (apiKeyValue inp)) (buildPrompt (foodValue inp) (lit ''Style''))]"
    by (simp add: handle_style)
next
  show "url (styleRequest (trim (apiKeyValue inp)) (buildPrompt (foodValue inp) (lit ''Style'')))
      = HF_ENDPOINTS_style"
    by simp
next
  assume "editValue inp = lit ''Style''"
    and "fetch ev (styleRequest (trim (apiKeyValue inp))
                     (buildPrompt (foodValue inp) (lit ''Style''))) = Inr resp \<and> ok resp"
  with assms show "outputArea (handleGenerateClick ev inp)
      = (case blobBody resp of
           Inl e \<Rightarrow> ErrorText processingFailedMessage
         | Inr imageBlob \<Rightarrow>
             ImageFromBlob imageBlob
               (lit ''Styled food image for '' @ foodValue inp
                  @ lit '' using SDXL based on prompt: ''
                  @ buildPrompt (foodValue inp) (lit ''Style'')))"
    by (simp add: handle_style callStyleGeneration_def Let_def)
next
  assume "editValue inp = lit ''Background cleaning'' \<and> photoFile inp = Some f
      \<and> fileToBase64 (readAsDataURL ev f) = Inr b64"
  with assms show "requests (handleGenerateClick ev inp)
      = [backgroundRequest (trim (apiKeyValue inp)) b64]"
    by (simp add: handle_background callBackgroundRemoval_read)
next
  show "url (backgroundRequest (trim (apiKeyValue inp)) b64) = HF_ENDPOINTS_background"
    by simp
next
  assume "editValue inp = lit ''Background cleaning'' \<and> photoFile inp = Some f
      \<and> fileToBase64 (readAsDataURL ev f) = Inr b64"
    and "fetch ev (backgroundRequest (trim (apiKeyValue inp)) b64) = Inr resp \<and> ok resp"
  with assms show "outputArea (handleGenerateClick ev inp)
      = (case jsonBody resp of
           Inl e \<Rightarrow> ErrorText processingFailedMessage
         | Inr parsed \<Rightarrow>
             (case decodeMask (engine ev) parsed of
                Inl e \<Rightarrow> ErrorText processingFailedMessage
              | Inr maskDataUrl \<Rightarrow>
                  ImageFromDataUrl maskDataUrl
                    (lit ''Background mask for '' @ foodValue inp
                       @ lit '' created with RMBG-2.0'')))"
    by (simp add: handle_background callBackgroundRemoval_read split: sum.splits)
next
  assume "editValue inp = lit ''Quality improvement'' \<and> photoFile inp = Some f"
  with assms show "requests (handleGenerateClick ev inp)
      = [qualityRequest (trim (apiKeyValue inp)) f]"
    by (simp add: handle_quality)
next
  show "url (qualityRequest (trim (apiKeyValue inp)) f) = HF_ENDPOINTS_quality"
    by simp
next
  assume "editValue inp = lit ''Quality improvement'' \<and> photoFile inp = Some f"
    and "fetch ev (qualityRequest (trim (apiKeyValue inp)) f) = Inr resp \<and> ok resp"
  with assms show "outputArea (handleGenerateClick ev inp)
      = (case blobBody resp of
           Inl e \<Rightarrow> ErrorText processingFailedMessage
         | Inr upscaledBlob \<Rightarrow>
             ImageFromBlob upscaledBlob
               (lit ''Quality-improved '' @ foodValue inp
                  @ lit '' photo upscaled by Real-ESRGAN''))"
    by (simp add: handle_quality callQualityImprovement_def Let_def)
next
  assume h: "photoFile inp = Some f \<and> fileToBase64 (readAsDataURL ev f) = Inr b64"
  consider (style) "editValue inp = lit ''Style''"
    | (background) "editValue inp = lit ''Background cleaning''"
    | (quality) "editValue inp = lit ''Quality improvement''"
    | (other) "editValue inp \<noteq> lit ''Style''" "editValue inp \<noteq> lit ''Background cleaning''"
        "editValue inp \<noteq> lit ''Quality improvement''"
    by blast
  then show "\<exists>r. requests (handleGenerateClick ev inp) = [r]
      \<and> url r \<in> set [HF_ENDPOINTS_style, HF_ENDPOINTS_background, HF_ENDPOINTS_quality]"
  proof cases
    case style
    with assms show ?thesis by (simp add: handle_style)
  next
    case background
    with assms h show ?thesis by (simp add: handle_background callBackgroundRemoval_read)
  next
    case quality
    with assms h show ?thesis by (simp add: handle_quality)
  next
    case other
    with assms show ?thesis by (simp add: handle_fallback)
  qed
next
  show "HF_ENDPOINT = HF_ENDPOINTS_style"
    by (simp add: HF_ENDPOINT_def HF_ENDPOINTS_style_def)
next
  from assms show "requests (handleGenerateClick_app ev inp)
      = [generateRequest (trim (apiKeyValue inp)) (buildPrompt (foodValue inp) (editValue inp))]"
    by (rule handle_app_requests)
next
  from assms show "requests (handleGenerateClick_altPrompt ev inp)
      = [generateRequest (trim (apiKeyValue inp))
           (buildPrompt_altPrompt (engine ev) (foodValue inp) (editValue inp))]"
    by (rule handle_app_requests)
next
  show "url (generateRequest k p) = HF_ENDPOINT"
    by (simp add: generateRequest_def)
next
  assume "fetch ev (generateRequest (trim (apiKeyValue inp))
                      (buildPrompt (foodValue inp) (editValue inp))) = Inr resp \<and> ok resp"
  with assms show "outputArea (handleGenerateClick_app ev inp)
      = (case blobBody resp of
           Inl err \<Rightarrow>
             ErrorText
               (if messageOf (engine ev) err \<noteq> [] then messageOf (engine ev) err
                else lit ''Something went wrong while generating the image.'')
         | Inr imageBlob \<Rightarrow>
             ImageFromBlob imageBlob
               (lit ''Generated '' @ foodValue inp @ lit '' image ('' @ editValue inp
                  @ lit '') with SDXL. Prompt: ''
                  @ buildPrompt (foodValue inp) (editValue inp)))"
    by (simp add: handleGenerateClick_app_def Let_def generateImage_app_def)
next
  assume "fetch ev (generateRequest (trim (apiKeyValue inp))
                      (buildPrompt_altPrompt (engine ev) (foodValue inp) (editValue inp)))
            = Inr resp \<and> ok resp"
  with assms show "outputArea (handleGenerateClick_altPrompt ev inp)
      = (case blobBody resp of
           Inl e \<Rightarrow>
             ErrorText
               (lit ''Something went wrong while generating the image. Please check your API key, model access, and try again.'')
         | Inr imageBlob \<Rightarrow>
             ImageFromBlob imageBlob
               (lit ''Generated food image based on prompt: ''
                  @ buildPrompt_altPrompt (engine ev) (foodValue inp) (editValue inp)))"
    by (simp add: handleGenerateClick_altPrompt_def Let_def generateImage_altPrompt_def)
qed

text \<open>
  One click per mode with the key \<open>hf_key\<close>: an image comes back for Style and for
  Quality improvement, the three segments of the example for Background cleaning. The
  same key with the handler of src/app.js in the mode Quality improvement and with the
  third variant in the mode Background cleaning: each sends its prompt to the Style
  endpoint and shows the image that comes back.
\<close>

theorem dispatch_by_mode_witness:
  "trim (lit '' hf_key '') \<noteq> []
   \<and> handleGenerateClick (server imageResponse) (click '' hf_key '' ''Style'' None)
       = \<lparr>requests = [styleRequest (lit ''hf_key'') (buildPrompt (lit ''Pizza'') (lit ''Style''))],
          outputArea = ImageFromBlob [0x89, 0x50, 0x4E, 0x47, 0x0D, 0x0A]
            (lit ''Styled food image for '' @ lit ''Pizza'' @ lit '' using SDXL based on prompt: ''
               @ buildPrompt (lit ''Pizza'') (lit ''Style''))\<rparr>
   \<and> handleGenerateClick (server segmentsResponse)
         (click '' hf_key '' ''Background cleaning'' (Some pizzaPhoto))
       = \<lparr>requests = [backgroundRequest (lit ''hf_key'') (lit ''iVBORw=='')],
          outputArea = ImageFromDataUrl (lit ''data:image/png;base64,BBBB'')
            (lit ''Background mask for '' @ lit ''Pizza'' @ lit '' created with RMBG-2.0'')\<rparr>
   \<and> handleGenerateClick (server imageResponse)
         (click '' hf_key '' ''Quality improvement'' (Some pizzaPhoto))
       = \<lparr>requests = [qualityRequest (lit ''hf_key'') pizzaPhoto],
          outputArea = ImageFromBlob [0x89, 0x50, 0x4E, 0x47, 0x0D, 0x0A]
            (lit ''Quality-improved '' @ lit ''Pizza'' @ lit '' photo upscaled by Real-ESRGAN'')\<rparr>
   \<and> handleGenerateClick_app (server imageResponse)
         (click '' hf_key '' ''Quality improvement'' (Some pizzaPhoto))
       = \<lparr>requests = [generateRequest (lit ''hf_key'')
                          (buildPrompt (lit ''Pizza'') (lit ''Quality improvement''))],
          outputArea = ImageFromBlob [0x89, 0x50, 0x4E, 0x47, 0x0D, 0x0A]
            (lit ''Generated '' @ lit ''Pizza'' @ lit '' image ('' @ lit ''Quality improvement''
               @ lit '') with SDXL. Prompt: ''
               @ buildPrompt (lit ''Pizza'') (lit ''Quality improvement''))\<rparr>
   \<and> handleGenerateClick_altPrompt (server imageResponse)
         (click '' hf_key '' ''Background cleaning'' (Some pizzaPhoto))
       = \<lparr>requests = [generateRequest (lit ''hf_key'')
                          (buildPrompt_altPrompt exampleRuntime (lit ''Pizza'')
                             (lit ''Background cleaning''))],
          outputArea = ImageFromBlob [0x89, 0x50, 0x4E, 0x47, 0x0D, 0x0A]
            (lit ''Generated food image based on prompt: ''
               @ buildPrompt_altPrompt exampleRuntime (lit ''Pizza'')
                   (lit ''Background cleaning''))\<rparr>
   \<and> url (generateRequest (lit ''hf_key'')
            (buildPrompt (lit ''Pizza'') (lit ''Quality improvement'')))
       = HF_ENDPOINTS_style"
proof -
  have key: "trim (apiKeyValue (click '' hf_key '' m ph)) \<noteq> []" for m ph by simp
  note style = dispatch_by_mode [OF key, where ev = "server imageResponse"
      and m1 = "''Style''" and ph1 = None and resp = imageResponse]
  note bc = dispatch_by_mode [OF key, where ev = "server segmentsResponse"
      and m1 = "''Background cleaning''" and ph1 = "Some pizzaPhoto" and resp = segmentsResponse
      and f = pizzaPhoto and ?b64.0 = "lit ''iVBORw==''"]
  note qi = dispatch_by_mode [OF key, where ev = "server imageResponse"
      and m1 = "''Quality improvement''" and ph1 = "Some pizzaPhoto" and resp = imageResponse
      and f = pizzaPhoto and k = "lit ''hf_key''"
      and p = "buildPrompt (lit ''Pizza'') (lit ''Quality improvement'')"]
  note alt = dispatch_by_mode [OF key, where ev = "server imageResponse"
      and m1 = "''Background cleaning''" and ph1 = "Some pizzaPhoto" and resp = imageResponse]
  have eq: "h = \<lparr>requests = r, outputArea = d\<rparr>" if "requests h = r" and "outputArea h = d"
    for h :: outcome and r d using that by (cases h) simp
  from style have c1:
    "handleGenerateClick (server imageResponse) (click '' hf_key '' ''Style'' None)
       = \<lparr>requests = [styleRequest (lit ''hf_key'') (buildPrompt (lit ''Pizza'') (lit ''Style''))],
          outputArea = ImageFromBlob [0x89, 0x50, 0x4E, 0x47, 0x0D, 0x0A]
            (lit ''Styled food image for '' @ lit ''Pizza'' @ lit '' using SDXL based on prompt: ''
               @ buildPrompt (lit ''Pizza'') (lit ''Style''))\<rparr>"
    by (intro eq) simp_all
  from bc have c2:
    "handleGenerateClick (server segmentsResponse)
         (click '' hf_key '' ''Background cleaning'' (Some pizzaPhoto))
       = \<lparr>requests = [backgroundRequest (lit ''hf_key'') (lit ''iVBORw=='')],
          outputArea = ImageFromDataUrl (lit ''data:image/png;base64,BBBB'')
            (lit ''Background mask for '' @ lit ''Pizza'' @ lit '' created with RMBG-2.0'')\<rparr>"
    by (intro eq) (simp_all add: decodeMask_three_segments)
  from qi have c3:
    "handleGenerateClick (server imageResponse)
         (click '' hf_key '' ''Quality improvement'' (Some pizzaPhoto))
       = \<lparr>requests = [qualityRequest (lit ''hf_key'') pizzaPhoto],
          outputArea = ImageFromBlob [0x89, 0x50, 0x4E, 0x47, 0x0D, 0x0A]
            (lit ''Quality-improved '' @ lit ''Pizza'' @ lit '' photo upscaled by Real-ESRGAN'')\<rparr>"
    by (intro eq) simp_all
  from qi have c4:
    "handleGenerateClick_app (server imageResponse)
         (click '' hf_key '' ''Quality improvement'' (Some pizzaPhoto))
       = \<lparr>requests = [generateRequest (lit ''hf_key'')
                          (buildPrompt (lit ''Pizza'') (lit ''Quality improvement''))],
          outputArea = ImageFromBlob [0x89, 0x50, 0x4E, 0x47, 0x0D, 0x0A]
            (lit ''Generated '' @ lit ''Pizza'' @ lit '' image ('' @ lit ''Quality improvement''
               @ lit '') with SDXL. Prompt: ''
               @ buildPrompt (lit ''Pizza'') (lit ''Quality improvement''))\<rparr>"
    by (intro eq) simp_all
  from alt have c5:
    "handleGenerateClick_altPrompt (server imageResponse)
         (click '' hf_key '' ''Background cleaning'' (Some pizzaPhoto))
       = \<lparr>requests = [generateRequest (lit ''hf_key'')
                          (buildPrompt_altPrompt exampleRuntime (lit ''Pizza'')
                             (lit ''Background cleaning''))],
          outputArea = ImageFromBlob [0x89, 0x50, 0x4E, 0x47, 0x0D, 0x0A]
            (lit ''Generated food image based on prompt: ''
               @ buildPrompt_altPrompt exampleRuntime (lit ''Pizza'')
                   (lit ''Background cleaning''))\<rparr>"
    by (intro eq) simp_all
  from qi have c6:
    "url (generateRequest (lit ''hf_key'')
            (buildPrompt (lit ''Pizza'') (lit ''Quality improvement'')))
       = HF_ENDPOINTS_style"
    by simp
  from c1 c2 c3 c4 c5 c6 show ?thesis by simp
qed

text \<open>
  Claim C2 as stated fails on src/app.js, whose \<open>HF_ENDPOINT\<close> it cites: the three
  modes are sent to one and the same URL, and in the mode Background cleaning the
  response, which here is not JSON, is read as a blob and shown as an image.
\<close>

theorem single_endpoint_counterexample:
  "map url (requests (handleGenerateClick_app (server imageResponse)
                       (click '' hf_key '' ''Style'' (Some pizzaPhoto))))
     = [lit ''https://router.huggingface.co/hf-inference/models/stabilityai/stable-diffusion-xl-base-1.0'']
   \<and> map url (requests (handleGenerateClick_app (server imageResponse)
                         (click '' hf_key '' ''Background cleaning'' (Some pizzaPhoto))))
     = [lit ''https://router.huggingface.co/hf-inference/models/stabilityai/stable-diffusion-xl-base-1.0'']
   \<and> map url (requests (handleGenerateClick_app (server imageResponse)
                         (click '' hf_key '' ''Quality improvement'' (Some pizzaPhoto))))
     = [lit ''https://router.huggingface.co/hf-inference/models/stabilityai/stable-diffusion-xl-base-1.0'']
   \<and> jsonBody imageResponse = Inl (Error (lit ''not JSON''))
   \<and> outputArea (handleGenerateClick_app (server imageResponse)
                   (click '' hf_key '' ''Background cleaning'' (Some pizzaPhoto)))
     = ImageFromBlob [0x89, 0x50, 0x4E, 0x47, 0x0D, 0x0A]
         (lit ''Generated '' @ lit ''Pizza'' @ lit '' image ('' @ lit ''Background cleaning''
            @ lit '') with SDXL. Prompt: ''
            @ buildPrompt (lit ''Pizza'') (lit ''Background cleaning''))"
  by (simp add: handleGenerateClick_app_def Let_def generateImage_app_def generateRequest_def
      HF_ENDPOINT_def imageResponse_def)

text \<open>
  Claim C8. A mode that is none of the three recognised strings makes the three-model
  handler issue the requests of Style mode: none without a key, otherwise the one style
  request with the Style prompt. The response is handled as in Style mode, a blob shown
  as an image (under another caption), and whatever the call throws ends as the fixed
  error text: the handler itself does not throw.
\<close>

theorem unknown_mode_falls_back_to_style:
  fixes ev :: env and inp :: inputs
  assumes "editValue inp \<noteq> lit ''Style''"
    and "editValue inp \<noteq> lit ''Background cleaning''"
    and "editValue inp \<noteq> lit ''Quality improvement''"
  shows
  "requests (handleGenerateClick ev inp)
     = requests (handleGenerateClick ev (inp\<lparr>editValue := lit ''Style''\<rparr>))
   \<and> (trim (apiKeyValue inp) = [] \<longrightarrow>
        handleGenerateClick ev inp
          = \<lparr>requests = [], outputArea = ErrorText missingKeyMessage\<rparr>)
   \<and> (trim (apiKeyValue inp) \<noteq> [] \<longrightarrow>
        requests (handleGenerateClick ev inp)
          = [styleRequest (trim (apiKeyValue inp)) (buildPrompt (foodValue inp) (lit ''Style''))]
        \<and> outputArea (handleGenerateClick ev inp)
            = (case snd (callStyleGeneration ev (trim (apiKeyValue inp))
                           (buildPrompt (foodValue inp) (lit ''Style''))) of
                 Inl e \<Rightarrow> ErrorText processingFailedMessage
               | Inr fallbackBlob \<Rightarrow>
                   ImageFromBlob fallbackBlob
                     (lit ''Generated food image for '' @ foodValue inp
                        @ lit '' (fallback style mode)''))
        \<and> outputArea (handleGenerateClick ev (inp\<lparr>editValue := lit ''Style''\<rparr>))
            = (case snd (callStyleGeneration ev (trim (apiKeyValue inp))
                           (buildPrompt (foodValue inp) (lit ''Style''))) of
                 Inl e \<Rightarrow> ErrorText processingFailedMessage
               | Inr imageBlob \<Rightarrow>
                   ImageFromBlob imageBlob
                     (lit ''Styled food image for '' @ foodValue inp
                        @ lit '' using SDXL based on prompt: ''
                        @ buildPrompt (foodValue inp) (lit ''Style''))))"
proof (cases "trim (apiKeyValue inp) = []")
  case True
  then show ?thesis by (simp add: handle_missing_key)
next
  case False
  then have k: "trim (apiKeyValue (inp\<lparr>editValue := lit ''Style''\<rparr>)) \<noteq> []" by simp
  have s: "editValue (inp\<lparr>editValue := lit ''Style''\<rparr>) = lit ''Style''" by simp
  show ?thesis
    using False handle_fallback [OF False assms, of ev] handle_style [OF k s, of ev]
    by (simp cong: sum.case_cong)
qed

text \<open>The mode \<open>Sepia\<close>, against a server that answers with an image and one that refuses.\<close>

theorem unknown_mode_falls_back_to_style_witness:
  "lit ''Sepia'' \<noteq> lit ''Style'' \<and> lit ''Sepia'' \<noteq> lit ''Background cleaning''
   \<and> lit ''Sepia'' \<noteq> lit ''Quality improvement''
   \<and> requests (handleGenerateClick (server imageResponse) (click '' hf_key '' ''Sepia'' None))
       = [styleRequest (lit ''hf_key'') (buildPrompt (lit ''Pizza'') (lit ''Style''))]
   \<and> requests (handleGenerateClick (server imageResponse) (click '' hf_key '' ''Style'' None))
       = [styleRequest (lit ''hf_key'') (buildPrompt (lit ''Pizza'') (lit ''Style''))]
   \<and> outputArea (handleGenerateClick (server imageResponse) (click '' hf_key '' ''Sepia'' None))
       = ImageFromBlob [0x89, 0x50, 0x4E, 0x47, 0x0D, 0x0A]
           (lit ''Generated food image for '' @ lit ''Pizza'' @ lit '' (fallback style mode)'')
   \<and> outputArea (handleGenerateClick (server (refusal [])) (click '' hf_key '' ''Sepia'' None))
       = ErrorText processingFailedMessage"
proof -
  have a: "editValue (click '' hf_key '' ''Sepia'' None) \<noteq> lit ''Style''"
    and b: "editValue (click '' hf_key '' ''Sepia'' None) \<noteq> lit ''Background cleaning''"
    and c: "editValue (click '' hf_key '' ''Sepia'' None) \<noteq> lit ''Quality improvement''"
    by simp_all
  note good = unknown_mode_falls_back_to_style [OF a b c, of "server imageResponse"]
  note bad = unknown_mode_falls_back_to_style [OF a b c, of "server (refusal [])"]
  from good have c1:
    "requests (handleGenerateClick (server imageResponse) (click '' hf_key '' ''Sepia'' None))
       = [styleRequest (lit ''hf_key'') (buildPrompt (lit ''Pizza'') (lit ''Style''))]"
    "requests (handleGenerateClick (server imageResponse) (click '' hf_key '' ''Style'' None))
       = [styleRequest (lit ''hf_key'') (buildPrompt (lit ''Pizza'') (lit ''Style''))]"
    "outputArea (handleGenerateClick (server imageResponse) (click '' hf_key '' ''Sepia'' None))
       = ImageFromBlob [0x89, 0x50, 0x4E, 0x47, 0x0D, 0x0A]
           (lit ''Generated food image for '' @ lit ''Pizza'' @ lit '' (fallback style mode)'')"
    by (auto simp: callStyleGeneration_def Let_def)
  from bad have c2:
    "outputArea (handleGenerateClick (server (refusal [])) (click '' hf_key '' ''Sepia'' None))
       = ErrorText processingFailedMessage"
    by (simp add: callStyleGeneration_def Let_def)
  from c1 c2 show ?thesis by simp
qed

text \<open>
  Claim C9. In Style mode the whole outcome of the three-model handler, the requests it
  issues included, is the same for any two photos or none: the one request, if any, is
  the style request, whose body is the JSON envelope of the prompt built from the food
  alone. The two single-endpoint handlers ignore the photo in every mode.
\<close>

theorem style_request_ignores_photo:
  fixes ev :: env and inp :: inputs and p1 p2 :: "jsfile option"
  shows
  "handleGenerateClick ev (inp\<lparr>editValue := lit ''Style'', photoFile := p1\<rparr>)
     = handleGenerateClick ev (inp\<lparr>editValue := lit ''Style'', photoFile := p2\<rparr>)
   \<and> (requests (handleGenerateClick ev (inp\<lparr>editValue := lit ''Style'', photoFile := p1\<rparr>)) = []
       \<or> requests (handleGenerateClick ev (inp\<lparr>editValue := lit ''Style'', photoFile := p1\<rparr>))
           = [styleRequest (trim (apiKeyValue inp)) (buildPrompt (foodValue inp) (lit ''Style''))])
   \<and> payload (styleRequest (trim (apiKeyValue inp)) (buildPrompt (foodValue inp) (lit ''Style'')))
       = JsonInputs (buildPrompt (foodValue inp) (lit ''Style''))
   \<and> handleGenerateClick_app ev (inp\<lparr>photoFile := p1\<rparr>)
       = handleGenerateClick_app ev (inp\<lparr>photoFile := p2\<rparr>)
   \<and> handleGenerateClick_altPrompt ev (inp\<lparr>photoFile := p1\<rparr>)
       = handleGenerateClick_altPrompt ev (inp\<lparr>photoFile := p2\<rparr>)"
proof (intro conjI)
  show "handleGenerateClick ev (inp\<lparr>editValue := lit ''Style'', photoFile := p1\<rparr>)
      = handleGenerateClick ev (inp\<lparr>editValue := lit ''Style'', photoFile := p2\<rparr>)"
    by (simp add: handleGenerateClick_def Let_def)
  show "requests (handleGenerateClick ev (inp\<lparr>editValue := lit ''Style'', photoFile := p1\<rparr>)) = []
      \<or> requests (handleGenerateClick ev (inp\<lparr>editValue := lit ''Style'', photoFile := p1\<rparr>))
          = [styleRequest (trim (apiKeyValue inp)) (buildPrompt (foodValue inp) (lit ''Style''))]"
    by (cases "trim (apiKeyValue inp) = []") (simp_all add: handle_missing_key handle_style)
  show "payload (styleRequest (trim (apiKeyValue inp)) (buildPrompt (foodValue inp) (lit ''Style'')))
      = JsonInputs (buildPrompt (foodValue inp) (lit ''Style''))"
    by (simp add: styleRequest_def)
  show "handleGenerateClick_app ev (inp\<lparr>photoFile := p1\<rparr>)
      = handleGenerateClick_app ev (inp\<lparr>photoFile := p2\<rparr>)"
    by (simp add: handleGenerateClick_app_def Let_def)
  show "handleGenerateClick_altPrompt ev (inp\<lparr>photoFile := p1\<rparr>)
      = handleGenerateClick_altPrompt ev (inp\<lparr>photoFile := p2\<rparr>)"
    by (simp add: handleGenerateClick_altPrompt_def Let_def)
qed

text \<open>The same click without a photo and with the photo of the example.\<close>

theorem style_request_ignores_photo_witness:
  "handleGenerateClick (server imageResponse) (click '' hf_key '' ''Style'' None)
     = handleGenerateClick (server imageResponse) (click '' hf_key '' ''Style'' (Some pizzaPhoto))
   \<and> requests (handleGenerateClick (server imageResponse)
                  (click '' hf_key '' ''Style'' (Some pizzaPhoto)))
       = [styleRequest (lit ''hf_key'') (buildPrompt (lit ''Pizza'') (lit ''Style''))]
   \<and> handleGenerateClick_app (server imageResponse) (click '' hf_key '' ''Style'' None)
       = handleGenerateClick_app (server imageResponse)
           (click '' hf_key '' ''Style'' (Some pizzaPhoto))
   \<and> handleGenerateClick_altPrompt (server imageResponse) (click '' hf_key '' ''Style'' None)
       = handleGenerateClick_altPrompt (server imageResponse)
           (click '' hf_key '' ''Style'' (Some pizzaPhoto))"
proof -
  note same = style_request_ignores_photo [where ev = "server imageResponse"
      and inp = "click '' hf_key '' ''Style'' None" and ?p1.0 = None and ?p2.0 = "Some pizzaPhoto"]
  have "requests (handleGenerateClick (server imageResponse)
                  (click '' hf_key '' ''Style'' (Some pizzaPhoto)))
       = [styleRequest (lit ''hf_key'') (buildPrompt (lit ''Pizza'') (lit ''Style''))]"
    by (simp add: handle_style)
  with same show ?thesis by simp
qed

end
